theory Spec2Isabelle
  imports Complex_Main "HOL-Library.Word"
begin

section \<open>JavaScript values\<close>

text \<open>
  The service (\<^verbatim>\<open>frontend/baileys-service.js\<close>) handles JSON request bodies, the parsed
  catalog file and event objects of the chat client. They are modelled by one datatype of
  JavaScript values. A JavaScript string is a sequence of 16-bit code units; \<open>lit\<close> embeds
  an ASCII literal of the source. Numbers are the finite values a JSON document can hold;
  the code below only tests them for zero (truthiness) and for equality.
\<close>

type_synonym jsstring = "16 word list"

definition lit :: "string \<Rightarrow> jsstring" where
  "lit s = map (\<lambda>c. of_char c) s"

datatype jsval =
    JUndefined
  | JNull
  | JBool bool
  | JNum rat
  | JStr jsstring
  | JArr "jsval list"
  | JObj "(jsstring \<times> jsval) list"

text \<open>\<^verbatim>\<open>!v\<close> is \<open>\<not> truthy v\<close>: the falsy values are undefined, null, false, 0 and ''.\<close>

fun truthy :: "jsval \<Rightarrow> bool" where
  "truthy JUndefined = False"
| "truthy JNull = False"
| "truthy (JBool b) = b"
| "truthy (JNum n) = (n \<noteq> 0)"
| "truthy (JStr s) = (s \<noteq> [])"
| "truthy (JArr xs) = True"
| "truthy (JObj kvs) = True"

fun typeof :: "jsval \<Rightarrow> jsstring" where
  "typeof JUndefined = lit ''undefined''"
| "typeof JNull = lit ''object''"
| "typeof (JBool b) = lit ''boolean''"
| "typeof (JNum n) = lit ''number''"
| "typeof (JStr s) = lit ''string''"
| "typeof (JArr xs) = lit ''object''"
| "typeof (JObj kvs) = lit ''object''"

fun nullish :: "jsval \<Rightarrow> bool" where
  "nullish JUndefined = True"
| "nullish JNull = True"
| "nullish v = False"

text \<open>
  \<open>field v k\<close> is the property read \<^verbatim>\<open>v.k\<close> on a value that is not null or undefined, for
  the data property names the service reads (\<^verbatim>\<open>message\<close>, \<^verbatim>\<open>type\<close>, \<^verbatim>\<open>text\<close>,
  \<^verbatim>\<open>mediaUrl\<close>, \<^verbatim>\<open>connection\<close>, ...): an object yields its own property or undefined,
  every other value has no such property. On null and undefined JavaScript raises a
  TypeError at a plain read; the functions below test \<open>nullish\<close> first wherever the source
  can reach such a read, and \<open>opt_field\<close> is the optional chaining \<^verbatim>\<open>v?.k\<close>.
\<close>

fun field :: "jsval \<Rightarrow> jsstring \<Rightarrow> jsval" where
  "field (JObj kvs) k = (case map_of kvs k of None \<Rightarrow> JUndefined | Some v \<Rightarrow> v)"
| "field v k = JUndefined"

definition opt_field :: "jsval \<Rightarrow> jsstring \<Rightarrow> jsval" where
  "opt_field v k = (if nullish v then JUndefined else field v k)"

text \<open>\<^verbatim>\<open>a || b\<close> on values.\<close>

definition js_or :: "jsval \<Rightarrow> jsval \<Rightarrow> jsval" where
  "js_or a b = (if truthy a then a else b)"

subsection \<open>String.prototype.trim\<close>

text \<open>
  \<^verbatim>\<open>trim\<close> removes the WhiteSpace and LineTerminator code units of ECMAScript from both
  ends: TAB, LF, VT, FF, CR, SPACE, NBSP, U+1680, U+2000 to U+200A, U+2028, U+2029, U+202F,
  U+205F, U+3000 and U+FEFF.
\<close>

definition is_ws :: "16 word \<Rightarrow> bool" where
  "is_ws c \<longleftrightarrow>
     c = 0x09 \<or> c = 0x0A \<or> c = 0x0B \<or> c = 0x0C \<or> c = 0x0D \<or> c = 0x20 \<or> c = 0xA0 \<or>
     c = 0x1680 \<or> (0x2000 \<le> c \<and> c \<le> 0x200A) \<or> c = 0x2028 \<or> c = 0x2029 \<or>
     c = 0x202F \<or> c = 0x205F \<or> c = 0x3000 \<or> c = 0xFEFF"

definition trim :: "jsstring \<Rightarrow> jsstring" where
  "trim s = rev (dropWhile is_ws (rev (dropWhile is_ws s)))"

section \<open>Errors\<close>

text \<open>
  One constructor for each error the service constructs, named after what it reports; the
  \<^verbatim>\<open>code\<close> property the source attaches is \<open>err_code\<close>. The error raised by
  \<^verbatim>\<open>create\<close> for a missing id carries no code. \<open>TypeError\<close> is the engine's error for a
  property read on null or undefined, \<open>SyntaxError\<close> that of \<^verbatim>\<open>JSON.parse\<close>,
  \<open>InvalidArgValue\<close> the error with which Node's file system functions reject a path
  that holds a NUL character, and \<open>External m\<close> is an error with message \<open>m\<close> thrown by
  the chat client library or the QR encoder.
\<close>

datatype error =
    IdRequired
  | InstanceExists
  | InvalidStatus
  | InstanceNotFound
  | MessageRequired
  | InvalidText
  | MediaUrlRequired
  | UnsupportedType
  | TypeError
  | SyntaxError
  | InvalidArgValue
  | External jsstring

fun err_code :: "error \<Rightarrow> jsstring option" where
  "err_code IdRequired = None"
| "err_code InstanceExists = Some (lit ''instance_exists'')"
| "err_code InvalidStatus = Some (lit ''invalid_status'')"
| "err_code InstanceNotFound = Some (lit ''instance_not_found'')"
| "err_code MessageRequired = Some (lit ''invalid_payload'')"
| "err_code InvalidText = Some (lit ''invalid_payload'')"
| "err_code MediaUrlRequired = Some (lit ''invalid_payload'')"
| "err_code UnsupportedType = Some (lit ''invalid_payload'')"
| "err_code TypeError = None"
| "err_code SyntaxError = None"
| "err_code InvalidArgValue = Some (lit ''ERR_INVALID_ARG_VALUE'')"
| "err_code (External m) = None"

section \<open>Message content\<close>

definition ALLOWED_MEDIA_TYPES :: "jsval set" where
  "ALLOWED_MEDIA_TYPES =
     {JStr (lit ''image''), JStr (lit ''video''), JStr (lit ''audio''),
      JStr (lit ''document''), JStr (lit ''sticker'')}"

text \<open>
  \<^verbatim>\<open>obj[k] = v\<close> on the property list of an object, and \<^verbatim>\<open>Map.prototype.set\<close> on
  the entry list of a Map: an existing key keeps its place, a new one goes to the end.
\<close>

fun Map_set :: "('k \<times> 'v) list \<Rightarrow> 'k \<Rightarrow> 'v \<Rightarrow> ('k \<times> 'v) list" where
  "Map_set [] k v = [(k, v)]"
| "Map_set ((k', v') # kvs) k v =
     (if k' = k then (k, v) # kvs else (k', v') # Map_set kvs k v)"

text \<open>
  The media branch of \<^verbatim>\<open>buildMessageContent\<close>, after the check of \<^verbatim>\<open>mediaUrl\<close>:
  \<^verbatim>\<open>content = {[type]: {url: mediaUrl}}\<close>, then \<^verbatim>\<open>content.caption\<close> and
  \<^verbatim>\<open>content[type].mimetype\<close> when the values are truthy.
\<close>

definition media_type :: "jsval \<Rightarrow> jsstring" where
  "media_type mediaType =
     (case mediaType of
        JStr s \<Rightarrow> if truthy mediaType \<and> mediaType \<in> ALLOWED_MEDIA_TYPES then s else lit ''image''
      | _ \<Rightarrow> lit ''image'')"

definition media_content :: "jsval \<Rightarrow> jsval \<Rightarrow> jsval \<Rightarrow> jsval \<Rightarrow> jsval" where
  "media_content mediaUrl caption mimetype mediaType =
     (let type = media_type mediaType;
          inner = [(lit ''url'', mediaUrl)];
          content = [(type, JObj inner)];
          content = (if truthy caption then Map_set content (lit ''caption'') caption
                     else content);
          content = (if truthy mimetype
                     then Map_set content type (JObj (Map_set inner (lit ''mimetype'') mimetype))
                     else content)
      in JObj content)"

definition buildMessageContent :: "jsval \<Rightarrow> error + jsval" where
  "buildMessageContent payload =
     (if nullish payload then Inl TypeError
      else let message = field payload (lit ''message'') in
        if \<not> truthy message \<or> typeof message \<noteq> lit ''object'' then Inl MessageRequired
        else let type = field payload (lit ''type'') in
          if type = JStr (lit ''text'') then
            (let text = field message (lit ''text'') in
               case text of
                 JStr s \<Rightarrow> if trim s = [] then Inl InvalidText
                           else Inr (JObj [(lit ''text'', text)])
               | _ \<Rightarrow> Inl InvalidText)
          else if type = JStr (lit ''media'') then
            (let mediaUrl = field message (lit ''mediaUrl'');
                 caption = field message (lit ''caption'');
                 mimetype = field message (lit ''mimetype'');
                 mediaType = field message (lit ''mediaType'')
             in if \<not> truthy mediaUrl \<or> typeof mediaUrl \<noteq> lit ''string''
                then Inl MediaUrlRequired
                else Inr (media_content mediaUrl caption mimetype mediaType))
          else if type = JStr (lit ''template'') then Inr message
          else Inl UnsupportedType)"

section \<open>The instance catalog: class InstanceStore\<close>

text \<open>
  An instance record has an identifier, a status and a metadata value. Identifiers are
  strings: the HTTP layer admits only non-empty strings, and the catalog file is a JSON
  array of such records. Status and metadata are JavaScript values, since
  \<^verbatim>\<open>init\<close> and \<^verbatim>\<open>updateStatus\<close> receive whatever the file or the caller holds.
\<close>

record instance_rec =
  iid :: jsstring
  status :: jsval
  metadata :: jsval

definition ALLOWED_STATUSES :: "jsval set" where
  "ALLOWED_STATUSES =
     {JStr (lit ''pending_qr''), JStr (lit ''ready''), JStr (lit ''disconnected'')}"

text \<open>
  The content of the catalog file \<^verbatim>\<open>data/instances.json\<close>: absent, empty, not
  parseable as JSON, or an array of records (a property missing in the file is
  \<open>JUndefined\<close>). \<^verbatim>\<open>save\<close> writes the array of the Map's values; the text of the
  serialisation is not modelled, and writing the file is taken to succeed. For an empty
  file \<^verbatim>\<open>init\<close> parses nothing and loads no record; \<open>Absent\<close> cannot remain after
  \<^verbatim>\<open>ensureInstancesFile\<close>.
\<close>

datatype catalog_file = Absent | Empty | Malformed | Parsed "instance_rec list"

text \<open>
  \<open>instances\<close> is the Map of the class, as its entries in insertion order (the order of
  \<^verbatim>\<open>list()\<close> and of the file); \<open>disk\<close> is the content of the file at \<^verbatim>\<open>filePath\<close>.
\<close>

record InstanceStore =
  instances :: "(jsstring \<times> instance_rec) list"
  initialized :: bool
  disk :: catalog_file

definition Map_get :: "('k \<times> 'v) list \<Rightarrow> 'k \<Rightarrow> 'v option" where
  "Map_get m k = map_of m k"

definition Map_has :: "('k \<times> 'v) list \<Rightarrow> 'k \<Rightarrow> bool" where
  "Map_has m k \<longleftrightarrow> map_of m k \<noteq> None"

definition Map_delete :: "('k \<times> 'v) list \<Rightarrow> 'k \<Rightarrow> ('k \<times> 'v) list" where
  "Map_delete m k = filter (\<lambda>kv. fst kv \<noteq> k) m"

definition new_store :: "catalog_file \<Rightarrow> InstanceStore" where
  "new_store f = \<lparr>instances = [], initialized = False, disk = f\<rparr>"

definition ensureInstancesFile :: "catalog_file \<Rightarrow> catalog_file" where
  "ensureInstancesFile f = (case f of Absent \<Rightarrow> Parsed [] | _ \<Rightarrow> f)"

definition load_instance :: "(jsstring \<times> instance_rec) list \<Rightarrow> instance_rec \<Rightarrow> (jsstring \<times> instance_rec) list" where
  "load_instance m r =
     Map_set m (iid r)
       \<lparr>iid = iid r,
        status = js_or (status r) (JStr (lit ''pending_qr'')),
        metadata = js_or (metadata r) (JObj [])\<rparr>"

definition store_init :: "InstanceStore \<Rightarrow> error option \<times> InstanceStore" where
  "store_init st =
     (if initialized st then (None, st)
      else let st = st\<lparr>disk := ensureInstancesFile (disk st)\<rparr> in
        case disk st of
          Malformed \<Rightarrow> (Some SyntaxError, st)
        | Parsed rs \<Rightarrow>
            (None, st\<lparr>instances := foldl load_instance (instances st) rs, initialized := True\<rparr>)
        | Empty \<Rightarrow> (None, st\<lparr>initialized := True\<rparr>)
        | Absent \<Rightarrow> (None, st\<lparr>initialized := True\<rparr>))"

definition store_list :: "InstanceStore \<Rightarrow> instance_rec list" where
  "store_list st = map snd (instances st)"

definition store_get :: "InstanceStore \<Rightarrow> jsstring \<Rightarrow> instance_rec option" where
  "store_get st k = Map_get (instances st) k"

definition store_save :: "InstanceStore \<Rightarrow> InstanceStore" where
  "store_save st = st\<lparr>disk := Parsed (store_list st)\<rparr>"

definition store_create :: "InstanceStore \<Rightarrow> jsstring \<Rightarrow> jsval \<Rightarrow> (error + instance_rec) \<times> InstanceStore" where
  "store_create st k md =
     (if \<not> truthy (JStr k) then (Inl IdRequired, st)
      else if Map_has (instances st) k then (Inl InstanceExists, st)
      else let inst = \<lparr>iid = k, status = JStr (lit ''pending_qr''), metadata = js_or md (JObj [])\<rparr>;
               st = st\<lparr>instances := Map_set (instances st) k inst\<rparr>
           in (Inr inst, store_save st))"

definition store_delete :: "InstanceStore \<Rightarrow> jsstring \<Rightarrow> bool \<times> InstanceStore" where
  "store_delete st k =
     (let existed = Map_has (instances st) k;
          st = st\<lparr>instances := Map_delete (instances st) k\<rparr>
      in if existed then (existed, store_save st) else (existed, st))"

definition store_updateStatus ::
    "InstanceStore \<Rightarrow> jsstring \<Rightarrow> jsval \<Rightarrow> (error + instance_rec option) \<times> InstanceStore" where
  "store_updateStatus st k s =
     (if s \<notin> ALLOWED_STATUSES then (Inl InvalidStatus, st)
      else case Map_get (instances st) k of
        None \<Rightarrow> (Inr None, st)
      | Some inst \<Rightarrow>
          let inst = inst\<lparr>status := s\<rparr>;
              st = st\<lparr>instances := Map_set (instances st) k inst\<rparr>
          in (Inr (Some inst), store_save st))"

definition store_updateMetadata ::
    "InstanceStore \<Rightarrow> jsstring \<Rightarrow> jsval \<Rightarrow> instance_rec option \<times> InstanceStore" where
  "store_updateMetadata st k md =
     (case Map_get (instances st) k of
        None \<Rightarrow> (None, st)
      | Some inst \<Rightarrow>
          let inst = inst\<lparr>metadata := js_or md (JObj [])\<rparr>;
              st = st\<lparr>instances := Map_set (instances st) k inst\<rparr>
          in (Some inst, store_save st))"

section \<open>Sessions: class BaileysManager\<close>

text \<open>
  A session holds the latest QR payload and the latest connection phase; its socket and
  credential callback belong to the chat client library. The library and the QR encoder
  are outside the service: \<open>env\<close> gives what their operations answer (\<open>Some m\<close> and
  \<open>Inl m\<close>: the call throws an error with message \<open>m\<close>), the removals that the
  operating system refuses (\<open>rm_fails\<close>), the directory \<open>dirname\<close> of the script, and the
  library's constant \<^verbatim>\<open>DisconnectReason.loggedOut\<close>. A path is the list of its
  components from the root of the file system. \<open>auth_dirs\<close> is the set of the credential
  directories that exist, each by its path; the catalog file is the \<open>disk\<close> of the
  store. \<open>trace\<close> records the calls made on the client, on the console and to
  \<^verbatim>\<open>fsp.rm\<close>. A registered session always has its socket, so \<^verbatim>\<open>session?.sock\<close>
  holds exactly when the session exists. Handlers run to completion, one at a time.
  Times are integers, the milliseconds of \<^verbatim>\<open>Date.now()\<close>.
\<close>

type_synonym path = "jsstring list"

record qr_payload =
  qr_type :: jsstring
  qr_value :: jsval
  expiresAt :: int

record session =
  qr :: "qr_payload option"
  connection :: jsval

datatype ws_outcome = NoWs | WsClosed | WsThrows jsstring

record env =
  useMultiFileAuthState :: "jsstring \<Rightarrow> jsstring option"
  fetchLatestBaileysVersion :: "jsstring option"
  logout :: "jsstring \<Rightarrow> jsstring option"
  ws_close :: "jsstring \<Rightarrow> ws_outcome"
  sendMessage :: "jsstring \<Rightarrow> jsstring \<Rightarrow> jsval \<Rightarrow> jsstring + jsval"
  toDataURL :: "jsval \<Rightarrow> jsstring + jsstring"
  loggedOut :: rat
  dirname :: path
  rm_fails :: "path \<Rightarrow> jsstring option"

datatype event =
    MakeSocket jsstring
  | Logout jsstring
  | WsClose jsstring
  | SendMessage jsstring jsstring jsval
  | ConsoleWarn jsstring jsstring
  | ConsoleError jsstring
  | Rm path

record world =
  store :: InstanceStore
  sessions :: "jsstring \<rightharpoonup> session"
  auth_dirs :: "path set"
  trace :: "event list"

definition QR_EXPIRATION_MS :: int where
  "QR_EXPIRATION_MS = 2 * 60 * 1000"

definition emit :: "event \<Rightarrow> world \<Rightarrow> world" where
  "emit e w = w\<lparr>trace := trace w @ [e]\<rparr>"

text \<open>
  Statements in sequence and \<^verbatim>\<open>try { ... } catch (error) { ... }\<close>: a step yields the
  error it throws, if any, and the world it leaves.
\<close>

definition and_then :: "error option \<times> world \<Rightarrow> (world \<Rightarrow> error option \<times> world) \<Rightarrow> error option \<times> world" where
  "and_then r f = (case r of (Some e, w) \<Rightarrow> (Some e, w) | (None, w) \<Rightarrow> f w)"

definition try_catch :: "error option \<times> world \<Rightarrow> (error \<Rightarrow> world \<Rightarrow> error option \<times> world) \<Rightarrow> error option \<times> world" where
  "try_catch r h = (case r of (Some e, w) \<Rightarrow> h e w | (None, w) \<Rightarrow> (None, w))"

subsection \<open>String helpers\<close>

definition starts_with :: "'a list \<Rightarrow> 'a list \<Rightarrow> bool" where
  "starts_with p s \<longleftrightarrow> take (length p) s = p"

fun js_includes :: "'a list \<Rightarrow> 'a list \<Rightarrow> bool" where
  "js_includes p [] = (p = [])"
| "js_includes p (c # cs) = (starts_with p (c # cs) \<or> js_includes p cs)"

definition ascii_lower :: "16 word \<Rightarrow> 16 word" where
  "ascii_lower c = (if 0x41 \<le> c \<and> c \<le> 0x5A then c + 0x20 else c)"

text \<open>
  \<^verbatim>\<open>/not logged in/i.test(m)\<close>: the pattern holds ASCII letters and spaces only, and the
  case-insensitive match of such a character is its lower or upper case ASCII form.
\<close>

definition not_logged_in :: "jsstring \<Rightarrow> bool" where
  "not_logged_in m \<longleftrightarrow> js_includes (lit ''not logged in'') (map ascii_lower m)"

fun js_split :: "'a \<Rightarrow> 'a list \<Rightarrow> 'a list list" where
  "js_split sep [] = [[]]"
| "js_split sep (c # cs) =
     (if c = sep then [] # js_split sep cs
      else case js_split sep cs of
             [] \<Rightarrow> [[c]]
           | p # ps \<Rightarrow> (c # p) # ps)"

text \<open>\<^verbatim>\<open>qrDataUrl.split(',')[1]\<close>\<close>

definition base64_of :: "jsstring \<Rightarrow> jsval" where
  "base64_of qrDataUrl =
     (case js_split 0x2C qrDataUrl of
        _ # b # _ \<Rightarrow> JStr b
      | _ \<Rightarrow> JUndefined)"

subsection \<open>Paths and the file system\<close>

text \<open>
  \<^verbatim>\<open>path.join(base, s)\<close> for an absolute \<open>base\<close>, with POSIX separators: the segments of
  \<open>s\<close> between slashes are appended to \<open>base\<close>, an empty segment and \<^verbatim>\<open>.\<close> are
  dropped, and \<^verbatim>\<open>..\<close> removes the last component (at the root it is dropped). So
  \<^verbatim>\<open>a/\<close> names the same directory as \<^verbatim>\<open>a\<close>, and \<^verbatim>\<open>..\<close> under
  \<^verbatim>\<open>data/sessions\<close> names \<^verbatim>\<open>data\<close>.
\<close>

definition normalize_step :: "path \<Rightarrow> jsstring \<Rightarrow> path" where
  "normalize_step acc c =
     (if c = [] \<or> c = lit ''.'' then acc
      else if c = lit ''..'' then butlast acc
      else acc @ [c])"

definition path_join :: "path \<Rightarrow> jsstring \<Rightarrow> path" where
  "path_join base s = foldl normalize_step base (js_split 0x2F s)"

definition DATA_DIR :: "env \<Rightarrow> path" where
  "DATA_DIR env = dirname env @ [lit ''data'']"

definition SESSIONS_DIR :: "env \<Rightarrow> path" where
  "SESSIONS_DIR env = DATA_DIR env @ [lit ''sessions'']"

definition INSTANCES_FILE :: "env \<Rightarrow> path" where
  "INSTANCES_FILE env = DATA_DIR env @ [lit ''instances.json'']"

text \<open>\<^verbatim>\<open>authDir = path.join(SESSIONS_DIR, instanceId)\<close>\<close>

definition authDir :: "env \<Rightarrow> jsstring \<Rightarrow> path" where
  "authDir env k = path_join (SESSIONS_DIR env) k"

text \<open>
  Node's file system functions reject a path that holds a NUL character before they
  reach the operating system.
\<close>

definition valid_path :: "path \<Rightarrow> bool" where
  "valid_path p \<longleftrightarrow> (\<forall>c \<in> set p. 0 \<notin> set c)"

text \<open>
  \<^verbatim>\<open>fsp.rm(p, {recursive: true, force: true})\<close>. The call fails for an invalid path, and
  for a path at which the operating system refuses the removal (a name that is too long,
  a file where a directory is expected, a missing permission), which \<open>rm_fails env\<close>
  names; a failing call is taken to remove nothing. Otherwise everything at or under
  \<open>p\<close> is removed, which is every credential directory whose path starts with \<open>p\<close>, and
  the catalog file when its path does; a path that does not exist is no error.
\<close>

definition rm_error :: "env \<Rightarrow> path \<Rightarrow> error option" where
  "rm_error env p =
     (if \<not> valid_path p then Some InvalidArgValue else map_option External (rm_fails env p))"

definition fsp_rm :: "env \<Rightarrow> path \<Rightarrow> world \<Rightarrow> error option \<times> world" where
  "fsp_rm env p w =
     (let w = emit (Rm p) w in
      case rm_error env p of
        Some e \<Rightarrow> (Some e, w)
      | None \<Rightarrow>
          (None,
           w\<lparr>auth_dirs := {q \<in> auth_dirs w. \<not> starts_with p q},
             store := (store w)\<lparr>disk := (if starts_with p (INSTANCES_FILE env) then Absent
                                         else disk (store w))\<rparr>\<rparr>))"

subsection \<open>Calls on the client\<close>

definition sock_logout :: "env \<Rightarrow> jsstring \<Rightarrow> world \<Rightarrow> error option \<times> world" where
  "sock_logout env k w = (map_option External (logout env k), emit (Logout k) w)"

text \<open>\<^verbatim>\<open>session.sock.ws?.close()\<close>: no call when the socket has no transport.\<close>

definition sock_ws_close :: "env \<Rightarrow> jsstring \<Rightarrow> world \<Rightarrow> error option \<times> world" where
  "sock_ws_close env k w =
     (case ws_close env k of
        NoWs \<Rightarrow> (None, w)
      | WsClosed \<Rightarrow> (None, emit (WsClose k) w)
      | WsThrows m \<Rightarrow> (Some (External m), emit (WsClose k) w))"

subsection \<open>cleanupSession\<close>

definition logout_catch :: "jsstring \<Rightarrow> error \<Rightarrow> world \<Rightarrow> error option \<times> world" where
  "logout_catch k error w =
     (case error of
        External m \<Rightarrow>
          if truthy (JStr m) \<and> \<not> not_logged_in m then (None, emit (ConsoleWarn k m) w)
          else (None, w)
      | _ \<Rightarrow> (None, w))"

definition cleanupSession :: "env \<Rightarrow> world \<Rightarrow> jsstring \<Rightarrow> bool \<Rightarrow> error option \<times> world" where
  "cleanupSession env w k keepData =
     and_then
       (case sessions w k of
          None \<Rightarrow> (None, w)
        | Some session \<Rightarrow>
            and_then (try_catch (sock_logout env k w) (logout_catch k))
              (\<lambda>w. try_catch (sock_ws_close env k w) (\<lambda>error w. (None, w))))
       (\<lambda>w. and_then (None, w\<lparr>sessions := (sessions w)(k := None)\<rparr>)
          (\<lambda>w. if \<not> keepData then fsp_rm env (authDir env k) w else (None, w)))"

subsection \<open>initializeForInstance, getOrCreateSession, getQRCode\<close>

text \<open>
  \<^verbatim>\<open>useMultiFileAuthState(authDir)\<close> creates the directory \<open>authDir\<close> when it succeeds.
  Its file system calls reject an invalid path; otherwise \<open>env\<close> says whether it fails,
  and a failing call is taken to leave the directories as they are.
\<close>

definition initializeForInstance :: "env \<Rightarrow> world \<Rightarrow> jsstring \<Rightarrow> (error + session) \<times> world" where
  "initializeForInstance env w k =
     (case sessions w k of
        Some existing \<Rightarrow> (Inr existing, w)
      | None \<Rightarrow>
         (case store_get (store w) k of
            None \<Rightarrow> (Inl InstanceNotFound, w)
          | Some inst \<Rightarrow>
             if \<not> valid_path (authDir env k) then (Inl InvalidArgValue, w)
             else
             (case useMultiFileAuthState env k of
                Some m \<Rightarrow> (Inl (External m), w)
              | None \<Rightarrow>
                 let w = w\<lparr>auth_dirs := insert (authDir env k) (auth_dirs w)\<rparr> in
                 (case fetchLatestBaileysVersion env of
                    Some m \<Rightarrow> (Inl (External m), w)
                  | None \<Rightarrow>
                     let w = emit (MakeSocket k) w;
                         session = \<lparr>qr = None, connection = JStr (lit ''close'')\<rparr>;
                         w = w\<lparr>sessions := (sessions w)(k \<mapsto> session)\<rparr>
                     in (Inr session, w)))))"

definition getOrCreateSession :: "env \<Rightarrow> world \<Rightarrow> jsstring \<Rightarrow> (error + session) \<times> world" where
  "getOrCreateSession env w k =
     (case sessions w k of
        Some session \<Rightarrow> (Inr session, w)
      | None \<Rightarrow> initializeForInstance env w k)"

record qrcode_image =
  image_type :: jsstring
  image_value :: jsval
  expiresIn :: int

record qrcode =
  instanceId :: jsstring
  image :: qrcode_image

text \<open>
  \<^verbatim>\<open>Math.floor((expiresAt - Date.now()) / 1000)\<close> on integer milliseconds is the integer
  division rounding down, which is \<open>div\<close> on \<open>int\<close>.
\<close>

definition getQRCode :: "world \<Rightarrow> jsstring \<Rightarrow> int \<Rightarrow> qrcode option" where
  "getQRCode w k now =
     (case sessions w k of
        None \<Rightarrow> None
      | Some session \<Rightarrow>
         (case qr session of
            None \<Rightarrow> None
          | Some q \<Rightarrow>
              let expiresIn = max 0 ((expiresAt q - now) div 1000)
              in Some \<lparr>instanceId = k,
                       image = \<lparr>image_type = qr_type q, image_value = qr_value q,
                                expiresIn = expiresIn\<rparr>\<rparr>))"

subsection \<open>handleConnectionUpdate\<close>

text \<open>
  \<^verbatim>\<open>await this.store.updateStatus(instanceId, status)\<close> as a statement of a handler, and
  an assignment to a property of the session object that the registry holds.
\<close>

definition updateStatus_call :: "jsstring \<Rightarrow> jsval \<Rightarrow> world \<Rightarrow> error option \<times> world" where
  "updateStatus_call k s w =
     (case store_updateStatus (store w) k s of
        (Inl e, st) \<Rightarrow> (Some e, w\<lparr>store := st\<rparr>)
      | (Inr r, st) \<Rightarrow> (None, w\<lparr>store := st\<rparr>))"

definition update_session :: "jsstring \<Rightarrow> (session \<Rightarrow> session) \<Rightarrow> world \<Rightarrow> world" where
  "update_session k f w =
     (case sessions w k of
        None \<Rightarrow> w
      | Some s \<Rightarrow> w\<lparr>sessions := (sessions w)(k \<mapsto> f s)\<rparr>)"

text \<open>
  \<open>loggedOut env\<close> is \<^verbatim>\<open>DisconnectReason.loggedOut\<close>, a numeric constant of the client
  library. \<open>now\<close> is the value of \<^verbatim>\<open>Date.now()\<close> read when a QR payload is stored.
\<close>

definition lastDisconnect_statusCode :: "jsval \<Rightarrow> jsval" where
  "lastDisconnect_statusCode update =
     opt_field (opt_field (opt_field (field update (lit ''lastDisconnect''))
       (lit ''error'')) (lit ''output'')) (lit ''statusCode'')"

text \<open>
  The block \<^verbatim>\<open>if (update.qr) { ... }\<close> of the handler. \<^verbatim>\<open>QRCode.toDataURL\<close> is awaited
  outside any \<^verbatim>\<open>try\<close>: when it rejects, the handler ends there with that error.
\<close>

definition qr_block :: "env \<Rightarrow> jsstring \<Rightarrow> jsval \<Rightarrow> int \<Rightarrow> world \<Rightarrow> error option \<times> world" where
  "qr_block env k update now w =
     (if truthy (field update (lit ''qr'')) then
        (case toDataURL env (field update (lit ''qr'')) of
           Inl m \<Rightarrow> (Some (External m), w)
         | Inr qrDataUrl \<Rightarrow>
             let base64 = base64_of qrDataUrl;
                 w = update_session k
                       (\<lambda>s. s\<lparr>qr := Some \<lparr>qr_type = lit ''base64'', qr_value = base64,
                                           expiresAt = now + QR_EXPIRATION_MS\<rparr>\<rparr>) w
             in updateStatus_call k (JStr (lit ''pending_qr'')) w)
      else (None, w))"

text \<open>The block \<^verbatim>\<open>if (update.connection) { ... }\<close> of the handler.\<close>

definition connection_block :: "env \<Rightarrow> jsstring \<Rightarrow> jsval \<Rightarrow> world \<Rightarrow> error option \<times> world" where
  "connection_block env k update w =
     (if truthy (field update (lit ''connection'')) then
        let w = update_session k (\<lambda>s. s\<lparr>connection := field update (lit ''connection'')\<rparr>) w in
        if field update (lit ''connection'') = JStr (lit ''open'') then
          updateStatus_call k (JStr (lit ''ready'')) (update_session k (\<lambda>s. s\<lparr>qr := None\<rparr>) w)
        else if field update (lit ''connection'') = JStr (lit ''close'') then
          let statusCode = lastDisconnect_statusCode update
          in if statusCode = JNum (loggedOut env) then
               and_then (updateStatus_call k (JStr (lit ''disconnected'')) w)
                 (\<lambda>w. cleanupSession env w k False)
             else updateStatus_call k (JStr (lit ''disconnected'')) w
        else (None, w)
      else (None, w))"

definition handleConnectionUpdate ::
    "env \<Rightarrow> world \<Rightarrow> jsstring \<Rightarrow> jsval \<Rightarrow> int \<Rightarrow> error option \<times> world" where
  "handleConnectionUpdate env w k update now =
     (case sessions w k of
        None \<Rightarrow> (None, w)
      | Some session \<Rightarrow>
         if nullish update then (Some TypeError, w)
         else and_then (qr_block env k update now w) (connection_block env k update))"

section \<open>Sending a message: POST /messages\<close>

datatype response = ErrorResponse nat jsstring | JsonResponse nat jsval

text \<open>
  \<open>ErrorResponse status code\<close> is \<^verbatim>\<open>createErrorResponse(res, status, code, message)\<close>; the
  human-readable message is left out. \<open>post_messages_send\<close> is the handler from the lookup
  of the session on, \<open>post_messages\<close> the whole handler. \<open>timestamp\<close> is the value of
  \<^verbatim>\<open>new Date().toISOString()\<close>.
\<close>

definition message_id :: "jsval \<Rightarrow> jsval" where
  "message_id result = js_or (opt_field (field result (lit ''key'')) (lit ''id'')) (JStr [])"

text \<open>The destination: \<^verbatim>\<open>to.includes('@') ? to : `${to}@s.whatsapp.net`\<close>.\<close>

definition jid_of :: "jsstring \<Rightarrow> jsstring" where
  "jid_of to = (if js_includes (lit ''@'') to then to else to @ lit ''@s.whatsapp.net'')"

definition post_messages_send ::
    "env \<Rightarrow> world \<Rightarrow> jsstring \<Rightarrow> jsstring \<Rightarrow> jsval \<Rightarrow> jsstring \<Rightarrow> response \<times> world" where
  "post_messages_send env w k to payload timestamp =
     (case getOrCreateSession env w k of
        (Inl error, w) \<Rightarrow> (ErrorResponse 500 (lit ''internal_error''), emit (ConsoleError k) w)
      | (Inr session, w) \<Rightarrow>
          if connection session \<noteq> JStr (lit ''open'')
          then (ErrorResponse 409 (lit ''instance_not_ready''), w)
          else
           (case buildMessageContent payload of
              Inl error \<Rightarrow>
                (ErrorResponse 400
                   (case err_code error of Some c \<Rightarrow> c | None \<Rightarrow> lit ''invalid_payload''), w)
            | Inr content \<Rightarrow>
                let jid = jid_of to;
                    w = emit (SendMessage k jid content) w
                in (case sendMessage env k jid content of
                      Inl m \<Rightarrow> (ErrorResponse 500 (lit ''internal_error''), emit (ConsoleError k) w)
                    | Inr result \<Rightarrow>
                        if nullish result
                        then (ErrorResponse 500 (lit ''internal_error''), emit (ConsoleError k) w)
                        else
                          (JsonResponse 202
                             (JObj [(lit ''messageId'', message_id result),
                                    (lit ''status'', JStr (lit ''queued'')),
                                    (lit ''timestamp'', JStr timestamp)]), w))))"

definition post_messages :: "env \<Rightarrow> world \<Rightarrow> jsval \<Rightarrow> jsstring \<Rightarrow> response \<times> world" where
  "post_messages env w body timestamp =
     (let payload = js_or body (JObj []);
          instanceId = field payload (lit ''instanceId'');
          to = field payload (lit ''to'');
          type = field payload (lit ''type'')
      in if \<not> truthy instanceId \<or> typeof instanceId \<noteq> lit ''string''
         then (ErrorResponse 400 (lit ''invalid_payload''), w)
         else if \<not> truthy to \<or> typeof to \<noteq> lit ''string''
         then (ErrorResponse 400 (lit ''invalid_payload''), w)
         else if \<not> truthy type \<or> typeof type \<noteq> lit ''string''
         then (ErrorResponse 400 (lit ''invalid_payload''), w)
         else
          (case (instanceId, to) of
             (JStr k, JStr t) \<Rightarrow>
               (case store_get (store w) k of
                  None \<Rightarrow> (ErrorResponse 404 (lit ''not_found''), w)
                | Some inst \<Rightarrow> post_messages_send env w k t payload timestamp)
           | _ \<Rightarrow> (ErrorResponse 400 (lit ''invalid_payload''), w)))"

section \<open>Runs of the service\<close>

text \<open>
  The operations that can change the catalog or the registry, as actions on the world;
  a run applies a list of them in order. An operation that throws leaves the world it had
  reached.
\<close>

datatype action =
    Create jsstring jsval
  | Delete jsstring
  | UpdateStatus jsstring jsval
  | UpdateMetadata jsstring jsval
  | ConnectionUpdate env jsstring jsval int
  | CleanupSession env jsstring bool
  | GetOrCreateSession env jsstring
  | PostMessages env jsval jsstring

fun step :: "world \<Rightarrow> action \<Rightarrow> world" where
  "step w (Create k md) = w\<lparr>store := snd (store_create (store w) k md)\<rparr>"
| "step w (Delete k) = w\<lparr>store := snd (store_delete (store w) k)\<rparr>"
| "step w (UpdateStatus k s) = w\<lparr>store := snd (store_updateStatus (store w) k s)\<rparr>"
| "step w (UpdateMetadata k md) = w\<lparr>store := snd (store_updateMetadata (store w) k md)\<rparr>"
| "step w (ConnectionUpdate env k update now) = snd (handleConnectionUpdate env w k update now)"
| "step w (CleanupSession env k keepData) = snd (cleanupSession env w k keepData)"
| "step w (GetOrCreateSession env k) = snd (getOrCreateSession env w k)"
| "step w (PostMessages env body timestamp) = snd (post_messages env w body timestamp)"

definition run :: "world \<Rightarrow> action list \<Rightarrow> world" where
  "run w acts = foldl step w acts"

text \<open>The world after \<^verbatim>\<open>store.init()\<close> on a catalog file, with any registry beside it.\<close>

definition loaded :: "catalog_file \<Rightarrow> (jsstring \<rightharpoonup> session) \<Rightarrow> path set \<Rightarrow> world" where
  "loaded f ss dirs =
     \<lparr>store = snd (store_init (new_store f)), sessions = ss, auth_dirs = dirs, trace = []\<rparr>"

definition statuses_allowed :: "InstanceStore \<Rightarrow> bool" where
  "statuses_allowed st \<longleftrightarrow> (\<forall>r \<in> set (store_list st). status r \<in> ALLOWED_STATUSES)"

section \<open>Vocabulary of the statements\<close>

text \<open>
  \<open>payload_type\<close> and \<open>payload_message\<close> are \<^verbatim>\<open>payload.type\<close> and \<^verbatim>\<open>payload.message\<close>;
  \<open>is_object v\<close> is the test \<^verbatim>\<open>v && typeof v === 'object'\<close>; a result
  \<open>fails_invalid_payload\<close> when it is an error whose code is \<^verbatim>\<open>invalid_payload\<close>.
\<close>

definition payload_type :: "jsval \<Rightarrow> jsval" where
  "payload_type payload = field payload (lit ''type'')"

definition payload_message :: "jsval \<Rightarrow> jsval" where
  "payload_message payload = field payload (lit ''message'')"

definition is_object :: "jsval \<Rightarrow> bool" where
  "is_object v \<longleftrightarrow> truthy v \<and> typeof v = lit ''object''"

definition fails_invalid_payload :: "error + 'a \<Rightarrow> bool" where
  "fails_invalid_payload r \<longleftrightarrow>
     (case r of Inl e \<Rightarrow> err_code e = Some (lit ''invalid_payload'') | Inr v \<Rightarrow> False)"

subsection \<open>Sample values\<close>

definition text_empty :: jsval where
  "text_empty =
     JObj [(lit ''type'', JStr (lit ''text'')), (lit ''message'', JObj [(lit ''text'', JStr [])])]"

definition text_padded :: jsval where
  "text_padded =
     JObj [(lit ''type'', JStr (lit ''text'')),
           (lit ''message'', JObj [(lit ''text'', JStr (lit '' hi ''))])]"

definition media_x :: jsval where
  "media_x =
     JObj [(lit ''type'', JStr (lit ''media'')),
           (lit ''message'', JObj [(lit ''mediaUrl'', JStr (lit ''http://x''))])]"

definition type_unknown :: jsval where
  "type_unknown = JObj [(lit ''type'', JStr (lit ''unknown''))]"

definition template_obj :: jsval where
  "template_obj =
     JObj [(lit ''type'', JStr (lit ''template'')),
           (lit ''message'', JObj [(lit ''name'', JStr (lit ''hello''))])]"

definition template_str :: jsval where
  "template_str =
     JObj [(lit ''type'', JStr (lit ''template'')), (lit ''message'', JStr (lit ''hello''))]"

text \<open>
  A catalog file is \<open>file_statuses_ok\<close> when every record in it carries one of the three
  statuses or none (a falsy value, which \<^verbatim>\<open>init\<close> replaces by \<^verbatim>\<open>pending_qr\<close>).
\<close>

definition file_statuses_ok :: "catalog_file \<Rightarrow> bool" where
  "file_statuses_ok f \<longleftrightarrow>
     (case f of
        Parsed rs \<Rightarrow> (\<forall>r \<in> set rs. \<not> truthy (status r) \<or> status r \<in> ALLOWED_STATUSES)
      | _ \<Rightarrow> True)"

definition md0 :: jsval where
  "md0 = JObj [(lit ''owner'', JStr (lit ''ana''))]"

definition rec_a :: instance_rec where
  "rec_a = \<lparr>iid = lit ''a'', status = JStr (lit ''pending_qr''), metadata = md0\<rparr>"

definition st0 :: InstanceStore where
  "st0 = \<lparr>instances = [], initialized = True, disk = Parsed []\<rparr>"

definition st_a :: InstanceStore where
  "st_a = \<lparr>instances = [(lit ''a'', rec_a)], initialized = True, disk = Parsed [rec_a]\<rparr>"

text \<open>The catalog of a world holds allowed statuses only.\<close>

definition catalog_ok :: "world \<Rightarrow> bool" where
  "catalog_ok w \<longleftrightarrow> statuses_allowed (store w)"

text \<open>
  A client library and a QR encoder whose calls all succeed, for a script in
  \<^verbatim>\<open>/srv/frontend\<close>; \<open>dir_of k\<close> is the credential directory of a plainly named instance.
\<close>

definition env_ok :: env where
  "env_ok =
     \<lparr>useMultiFileAuthState = (\<lambda>k. None), fetchLatestBaileysVersion = None,
      logout = (\<lambda>k. None), ws_close = (\<lambda>k. WsClosed),
      sendMessage = (\<lambda>k jid content. Inr (JObj [(lit ''key'', JObj [(lit ''id'', JStr (lit ''M1''))])])),
      toDataURL = (\<lambda>v. Inr (lit ''data:image/png;base64,QUJD'')), loggedOut = 401,
      dirname = [lit ''srv'', lit ''frontend''], rm_fails = (\<lambda>p. None)\<rparr>"

definition dir_of :: "jsstring \<Rightarrow> path" where
  "dir_of k = [lit ''srv'', lit ''frontend'', lit ''data'', lit ''sessions'', k]"

definition file_ab :: catalog_file where
  "file_ab =
     Parsed [\<lparr>iid = lit ''a'', status = JStr (lit ''ready''), metadata = JUndefined\<rparr>,
             \<lparr>iid = lit ''b'', status = JUndefined, metadata = JUndefined\<rparr>]"

definition acts_ab :: "action list" where
  "acts_ab =
     [Create (lit ''c'') JUndefined,
      UpdateStatus (lit ''a'') (JStr (lit ''bogus'')),
      UpdateStatus (lit ''b'') (JStr (lit ''disconnected'')),
      UpdateMetadata (lit ''c'') md0,
      Delete (lit ''a'')]"

definition file_bogus :: catalog_file where
  "file_bogus = Parsed [\<lparr>iid = lit ''a'', status = JStr (lit ''bogus''), metadata = JUndefined\<rparr>]"

text \<open>\<open>qr_expiresIn\<close> is the \<^verbatim>\<open>expiresIn\<close> of the answer of \<^verbatim>\<open>getQRCode\<close>, if any.\<close>

definition qr_expiresIn :: "world \<Rightarrow> jsstring \<Rightarrow> int \<Rightarrow> int option" where
  "qr_expiresIn w k now = map_option (\<lambda>r. expiresIn (image r)) (getQRCode w k now)"

text \<open>
  A world with a session that holds a QR payload expiring at 121000 ms, a client
  library whose logout reports that the account is not logged in and whose transport
  throws on close, and the same on a file system that refuses every removal.
\<close>

definition qr_abc :: qr_payload where
  "qr_abc = \<lparr>qr_type = lit ''base64'', qr_value = JStr (lit ''QUJD''), expiresAt = 121000\<rparr>"

definition w_qr :: world where
  "w_qr =
     \<lparr>store = st_a,
      sessions = [lit ''a'' \<mapsto> \<lparr>qr = Some qr_abc, connection = JStr (lit ''close'')\<rparr>,
                  lit ''b'' \<mapsto> \<lparr>qr = None, connection = JStr (lit ''open'')\<rparr>],
      auth_dirs = {dir_of (lit ''a''), dir_of (lit ''b'')}, trace = []\<rparr>"

definition env_gone :: env where
  "env_gone = env_ok\<lparr>logout := \<lambda>k. Some (lit ''Error: Not Logged In''),
                     ws_close := \<lambda>k. WsThrows (lit ''socket hang up'')\<rparr>"

definition env_denied :: env where
  "env_denied = env_gone\<lparr>rm_fails := \<lambda>p. Some (lit ''EACCES: permission denied'')\<rparr>"

text \<open>
  The world that \<^verbatim>\<open>handleConnectionUpdate\<close> leaves, and three events: the connection
  opened, closed because the account logged out (reason 401 of \<open>env_ok\<close>), closed
  because the connection was lost.
\<close>

definition after_update :: "env \<Rightarrow> world \<Rightarrow> jsstring \<Rightarrow> jsval \<Rightarrow> int \<Rightarrow> world" where
  "after_update env w k update now = snd (handleConnectionUpdate env w k update now)"

definition update_open :: jsval where
  "update_open = JObj [(lit ''connection'', JStr (lit ''open''))]"

definition update_logged_out :: jsval where
  "update_logged_out =
     JObj [(lit ''connection'', JStr (lit ''close'')),
           (lit ''lastDisconnect'',
            JObj [(lit ''error'', JObj [(lit ''output'', JObj [(lit ''statusCode'', JNum 401)])])])]"

definition update_lost :: jsval where
  "update_lost =
     JObj [(lit ''connection'', JStr (lit ''close'')),
           (lit ''lastDisconnect'',
            JObj [(lit ''error'', JObj [(lit ''output'', JObj [(lit ''statusCode'', JNum 408)])])])]"

text \<open>A world whose session is open, and a request to send a text.\<close>

definition w_open :: world where
  "w_open =
     \<lparr>store = st_a,
      sessions = [lit ''a'' \<mapsto> \<lparr>qr = None, connection = JStr (lit ''open'')\<rparr>],
      auth_dirs = {dir_of (lit ''a'')}, trace = []\<rparr>"

definition body_hello :: jsval where
  "body_hello =
     JObj [(lit ''instanceId'', JStr (lit ''a'')), (lit ''to'', JStr (lit ''5511'')),
           (lit ''type'', JStr (lit ''text'')),
           (lit ''message'', JObj [(lit ''text'', JStr (lit ''hello''))])]"

text \<open>
  The calls that \<^verbatim>\<open>cleanupSession\<close> makes for a registered session: the logout, a
  warning when the logout fails with a message that does not say "not logged in", and
  the closing of the transport when the socket has one. \<open>dirs_valid\<close> holds of a world
  whose credential directories all have valid paths; a file system holds no other.
\<close>

definition cleanup_calls :: "env \<Rightarrow> jsstring \<Rightarrow> event list" where
  "cleanup_calls env k =
     Logout k #
     (case logout env k of
        None \<Rightarrow> []
      | Some m \<Rightarrow> if m \<noteq> [] \<and> \<not> not_logged_in m then [ConsoleWarn k m] else []) @
     (case ws_close env k of NoWs \<Rightarrow> [] | WsClosed \<Rightarrow> [WsClose k] | WsThrows m \<Rightarrow> [WsClose k])"

definition dirs_valid :: "world \<Rightarrow> bool" where
  "dirs_valid w \<longleftrightarrow> (\<forall>p \<in> auth_dirs w. valid_path p)"

text \<open>
  Two identifiers that the HTTP layer admits: \<^verbatim>\<open>..\<close>, whose credential directory is
  \<^verbatim>\<open>data\<close>, and one that holds a NUL character.
\<close>

definition id_up :: jsstring where "id_up = lit ''..''"

definition id_nul :: jsstring where "id_nul = [0x61, 0]"

text \<open>
  \<open>qr_encodes env update\<close>: the update carries no QR text, or the encoder accepts the one
  it carries. \<open>env_qr_fail\<close> is \<open>env_ok\<close> with an encoder that rejects its input, and
  \<open>update_qr_open\<close> an update that carries both a QR value and the phase \<^verbatim>\<open>open\<close>.
\<close>

definition qr_encodes :: "env \<Rightarrow> jsval \<Rightarrow> bool" where
  "qr_encodes env update \<longleftrightarrow>
     \<not> truthy (field update (lit ''qr'')) \<or>
     (case toDataURL env (field update (lit ''qr'')) of Inl m \<Rightarrow> False | Inr url \<Rightarrow> True)"

definition env_qr_fail :: env where
  "env_qr_fail = env_ok\<lparr>toDataURL := \<lambda>v. Inl (lit ''Invalid data'')\<rparr>"

definition update_qr_open :: jsval where
  "update_qr_open = JObj [(lit ''qr'', JNum 5), (lit ''connection'', JStr (lit ''open''))]"

section \<open>Properties\<close>

subsection \<open>Strings and values\<close>

lemma of_char_word16: "unat (of_char c :: 16 word) = of_char c"
proof -
  have "(of_char c :: nat) mod 256 = of_char c" by simp
  then have "(of_char c :: nat) < 256" by (metis mod_less_divisor zero_less_numeral)
  then have lt: "(of_char c :: nat) < 65536" by linarith
  have "(of_char c :: 16 word) = of_nat (of_char c)" by (simp add: of_nat_of_char)
  then have "unat (of_char c :: 16 word) = unat (of_nat (of_char c :: nat) :: 16 word)" by simp
  also have "\<dots> = of_char c" using lt by (simp add: unat_of_nat)
  finally show ?thesis .
qed

lemma lit_eq_iff [simp]: "lit a = lit b \<longleftrightarrow> a = b"
proof -
  have "inj (\<lambda>c. of_char c :: 16 word)"
  proof (rule injI)
    fix c d :: char
    assume "(of_char c :: 16 word) = of_char d"
    then have "unat (of_char c :: 16 word) = unat (of_char d :: 16 word)" by simp
    then show "c = d" by (simp add: of_char_word16)
  qed
  then show ?thesis unfolding lit_def by (simp add: inj_map_eq_map)
qed

lemma lit_Nil [simp]: "lit s = [] \<longleftrightarrow> s = []" "[] = lit s \<longleftrightarrow> s = []"
  by (auto simp: lit_def)

lemma field_JStr_obj: "field v k = JStr s \<Longrightarrow> \<exists>kvs. v = JObj kvs"
  by (cases v) auto

lemma is_object_iff: "is_object v \<longleftrightarrow> (\<exists>kvs. v = JObj kvs) \<or> (\<exists>xs. v = JArr xs)"
  by (cases v) (auto simp: is_object_def)

subsection \<open>buildMessageContent\<close>

text \<open>The function by cases, for a payload on which \<^verbatim>\<open>payload.message\<close> can be read.\<close>

lemma build_cases:
  assumes "\<not> nullish payload"
  shows "buildMessageContent payload =
     (let message = field payload (lit ''message''); type = field payload (lit ''type'') in
      if \<not> is_object message then Inl MessageRequired
      else if type = JStr (lit ''text'') then
        (case field message (lit ''text'') of
           JStr s \<Rightarrow> if trim s = [] then Inl InvalidText else Inr (JObj [(lit ''text'', JStr s)])
         | _ \<Rightarrow> Inl InvalidText)
      else if type = JStr (lit ''media'') then
        (case field message (lit ''mediaUrl'') of
           JStr u \<Rightarrow> if u = [] then Inl MediaUrlRequired
                     else Inr (media_content (JStr u) (field message (lit ''caption''))
                                 (field message (lit ''mimetype'')) (field message (lit ''mediaType'')))
         | _ \<Rightarrow> Inl MediaUrlRequired)
      else if type = JStr (lit ''template'') then Inr message
      else Inl UnsupportedType)"
  using assms
  apply (simp add: buildMessageContent_def Let_def is_object_def)
  apply (cases "field (field payload (lit ''message'')) (lit ''mediaUrl'')")
  apply (auto split: jsval.splits)
  done

lemma media_content_default:
  assumes "mediaType \<notin> ALLOWED_MEDIA_TYPES"
  shows "media_content mediaUrl caption mimetype mediaType =
     JObj ((lit ''image'',
            JObj ((lit ''url'', mediaUrl) #
                  (if truthy mimetype then [(lit ''mimetype'', mimetype)] else []))) #
           (if truthy caption then [(lit ''caption'', caption)] else []))"
  using assms by (cases mediaType) (auto simp: media_content_def media_type_def Let_def)

text \<open>
  C1, as the code has it. For a payload other than null and undefined:
  with type \<^verbatim>\<open>text\<close> the function fails with code \<^verbatim>\<open>invalid_payload\<close> when
  \<^verbatim>\<open>message.text\<close> is not a string or is empty after trimming; with type \<^verbatim>\<open>media\<close> it
  fails with that code when \<^verbatim>\<open>message.mediaUrl\<close> is missing, empty or not a string, and
  for a non-empty URL string it builds the content under the kind \<^verbatim>\<open>image\<close> whenever
  \<^verbatim>\<open>mediaType\<close> is not one of the recognised kinds; with type \<^verbatim>\<open>template\<close> it
  returns \<^verbatim>\<open>payload.message\<close> unchanged when that is an object, and fails with
  \<^verbatim>\<open>invalid_payload\<close> when it is missing or not an object; with any other type it fails
  with \<^verbatim>\<open>invalid_payload\<close>. The result depends on the payload alone.
\<close>

theorem buildMessageContent_by_type:
  assumes "\<not> nullish payload"
  shows
   "(payload_type payload = JStr (lit ''text'') \<longrightarrow>
       (case field (payload_message payload) (lit ''text'') of
          JStr s \<Rightarrow> trim s = [] | _ \<Rightarrow> True) \<longrightarrow>
       fails_invalid_payload (buildMessageContent payload)) \<and>
    (payload_type payload = JStr (lit ''media'') \<longrightarrow>
       (case field (payload_message payload) (lit ''mediaUrl'') of
          JStr u \<Rightarrow> u = [] | _ \<Rightarrow> True) \<longrightarrow>
       fails_invalid_payload (buildMessageContent payload)) \<and>
    (payload_type payload = JStr (lit ''media'') \<longrightarrow>
       (\<forall>u. field (payload_message payload) (lit ''mediaUrl'') = JStr u \<longrightarrow> u \<noteq> [] \<longrightarrow>
          field (payload_message payload) (lit ''mediaType'') \<notin> ALLOWED_MEDIA_TYPES \<longrightarrow>
          buildMessageContent payload =
            Inr (JObj ((lit ''image'',
                        JObj ((lit ''url'', JStr u) #
                              (if truthy (field (payload_message payload) (lit ''mimetype''))
                               then [(lit ''mimetype'', field (payload_message payload) (lit ''mimetype''))]
                               else []))) #
                       (if truthy (field (payload_message payload) (lit ''caption''))
                        then [(lit ''caption'', field (payload_message payload) (lit ''caption''))]
                        else []))))) \<and>
    (payload_type payload = JStr (lit ''template'') \<longrightarrow>
       (if is_object (payload_message payload)
        then buildMessageContent payload = Inr (payload_message payload)
        else fails_invalid_payload (buildMessageContent payload))) \<and>
    (payload_type payload \<notin> {JStr (lit ''text''), JStr (lit ''media''), JStr (lit ''template'')} \<longrightarrow>
       fails_invalid_payload (buildMessageContent payload))"
proof -
  note bc = build_cases [OF assms, unfolded Let_def, folded payload_type_def payload_message_def]
  have c_text: "payload_type payload = JStr (lit ''text'') \<longrightarrow>
       (case field (payload_message payload) (lit ''text'') of
          JStr s \<Rightarrow> trim s = [] | _ \<Rightarrow> True) \<longrightarrow>
       fails_invalid_payload (buildMessageContent payload)"
    by (simp add: bc fails_invalid_payload_def split: jsval.splits)
  have media_fail: "payload_type payload = JStr (lit ''media'') \<longrightarrow>
       (case field (payload_message payload) (lit ''mediaUrl'') of
          JStr u \<Rightarrow> u = [] | _ \<Rightarrow> True) \<longrightarrow>
       fails_invalid_payload (buildMessageContent payload)"
    by (simp add: bc fails_invalid_payload_def split: jsval.splits)
  have media_ok: "payload_type payload = JStr (lit ''media'') \<longrightarrow>
       (\<forall>u. field (payload_message payload) (lit ''mediaUrl'') = JStr u \<longrightarrow> u \<noteq> [] \<longrightarrow>
          field (payload_message payload) (lit ''mediaType'') \<notin> ALLOWED_MEDIA_TYPES \<longrightarrow>
          buildMessageContent payload =
            Inr (JObj ((lit ''image'',
                        JObj ((lit ''url'', JStr u) #
                              (if truthy (field (payload_message payload) (lit ''mimetype''))
                               then [(lit ''mimetype'', field (payload_message payload) (lit ''mimetype''))]
                               else []))) #
                       (if truthy (field (payload_message payload) (lit ''caption''))
                        then [(lit ''caption'', field (payload_message payload) (lit ''caption''))]
                        else []))))"
  proof (intro impI allI)
    fix u
    assume t: "payload_type payload = JStr (lit ''media'')"
      and u: "field (payload_message payload) (lit ''mediaUrl'') = JStr u" "u \<noteq> []"
      and k: "field (payload_message payload) (lit ''mediaType'') \<notin> ALLOWED_MEDIA_TYPES"
    have "is_object (payload_message payload)"
      using u(1) field_JStr_obj is_object_iff by blast
    then have "buildMessageContent payload =
        Inr (media_content (JStr u) (field (payload_message payload) (lit ''caption''))
               (field (payload_message payload) (lit ''mimetype''))
               (field (payload_message payload) (lit ''mediaType'')))"
      using t u by (simp add: bc)
    then show "buildMessageContent payload =
            Inr (JObj ((lit ''image'',
                        JObj ((lit ''url'', JStr u) #
                              (if truthy (field (payload_message payload) (lit ''mimetype''))
                               then [(lit ''mimetype'', field (payload_message payload) (lit ''mimetype''))]
                               else []))) #
                       (if truthy (field (payload_message payload) (lit ''caption''))
                        then [(lit ''caption'', field (payload_message payload) (lit ''caption''))]
                        else [])))"
      by (simp only: media_content_default [OF k])
  qed
  have c_template: "payload_type payload = JStr (lit ''template'') \<longrightarrow>
       (if is_object (payload_message payload)
        then buildMessageContent payload = Inr (payload_message payload)
        else fails_invalid_payload (buildMessageContent payload))"
    by (simp add: bc fails_invalid_payload_def)
  have other: "payload_type payload \<notin> {JStr (lit ''text''), JStr (lit ''media''), JStr (lit ''template'')} \<longrightarrow>
       fails_invalid_payload (buildMessageContent payload)"
    by (simp add: bc fails_invalid_payload_def)
  from c_text media_fail media_ok c_template other show ?thesis by blast
qed

theorem buildMessageContent_by_type_witness:
  "fails_invalid_payload (buildMessageContent text_empty) \<and>
   buildMessageContent media_x =
     Inr (JObj [(lit ''image'', JObj [(lit ''url'', JStr (lit ''http://x''))])]) \<and>
   fails_invalid_payload (buildMessageContent type_unknown) \<and>
   buildMessageContent template_obj = Inr (JObj [(lit ''name'', JStr (lit ''hello''))]) \<and>
   fails_invalid_payload (buildMessageContent template_str)"
proof -
  have "fails_invalid_payload (buildMessageContent text_empty)"
    using buildMessageContent_by_type [of text_empty]
    by (simp add: text_empty_def payload_type_def payload_message_def trim_def)
  moreover have "buildMessageContent media_x =
     Inr (JObj [(lit ''image'', JObj [(lit ''url'', JStr (lit ''http://x''))])])"
    using buildMessageContent_by_type [of media_x]
    by (simp add: media_x_def payload_type_def payload_message_def ALLOWED_MEDIA_TYPES_def)
  moreover have "fails_invalid_payload (buildMessageContent type_unknown)"
    using buildMessageContent_by_type [of type_unknown]
    by (simp add: type_unknown_def payload_type_def)
  moreover have "buildMessageContent template_obj = Inr (JObj [(lit ''name'', JStr (lit ''hello''))])"
    using buildMessageContent_by_type [of template_obj]
    by (simp add: template_obj_def payload_type_def payload_message_def is_object_def)
  moreover have "fails_invalid_payload (buildMessageContent template_str)"
    using buildMessageContent_by_type [of template_str]
    by (simp add: template_str_def payload_type_def payload_message_def is_object_def)
  ultimately show ?thesis by blast
qed

text \<open>
  C1 as stated does not hold for type \<^verbatim>\<open>template\<close>: the check of \<^verbatim>\<open>payload.message\<close>
  comes before the switch, so a template whose message is the string \<^verbatim>\<open>hello\<close> is
  rejected and not returned.
\<close>

theorem template_not_verbatim:
  "payload_type template_str = JStr (lit ''template'') \<and>
   buildMessageContent template_str = Inl MessageRequired \<and>
   buildMessageContent template_str \<noteq> Inr (payload_message template_str)"
  by (simp add: template_str_def payload_type_def payload_message_def buildMessageContent_def)

text \<open>
  C10: for a payload of type \<^verbatim>\<open>text\<close> whose \<^verbatim>\<open>message.text\<close> is a string that is
  not empty after trimming, the content returned carries that string unmodified; trimming
  is applied to the validity check only.
\<close>

theorem text_kept:
  assumes "field payload (lit ''type'') = JStr (lit ''text'')"
    and "field (field payload (lit ''message'')) (lit ''text'') = JStr s"
    and "trim s \<noteq> []"
  shows "buildMessageContent payload = Inr (JObj [(lit ''text'', JStr s)])"
proof -
  obtain fs where p: "payload = JObj fs" using assms(1) field_JStr_obj by blast
  obtain ms where m: "field payload (lit ''message'') = JObj ms"
    using assms(2) field_JStr_obj by blast
  show ?thesis
    using assms m by (simp add: buildMessageContent_def p)
qed

theorem text_kept_witness:
  "trim (lit '' hi '') = lit ''hi'' \<and>
   buildMessageContent text_padded = Inr (JObj [(lit ''text'', JStr (lit '' hi ''))])"
proof -
  have t: "trim (lit '' hi '') = lit ''hi''"
    by (simp add: trim_def is_ws_def lit_def)
  have "trim (lit '' hi '') \<noteq> []" by (simp add: t)
  then show ?thesis
    using t text_kept [of text_padded "lit '' hi ''"]
    by (simp add: text_padded_def)
qed

subsection \<open>The Map operations and the catalog\<close>

lemma Map_set_absent: "\<not> Map_has m k \<Longrightarrow> Map_set m k v = m @ [(k, v)]"
  by (induction m) (auto simp: Map_has_def)

lemma map_of_Map_set: "map_of (Map_set m k v) = (map_of m)(k \<mapsto> v)"
  by (induction m) (auto simp: fun_eq_iff)


lemma in_Map_set: "(a, x) \<in> set (Map_set m k v) \<Longrightarrow> x = v \<or> (a, x) \<in> set m"
  by (induction m) (auto split: if_splits)

lemma values_Map_set: "set (map snd (Map_set m k v)) \<subseteq> insert v (set (map snd m))"
  using in_Map_set by fastforce

lemma map_of_Map_delete: "map_of (Map_delete m k) = (map_of m)(k := None)"
  by (induction m) (auto simp: Map_delete_def fun_eq_iff)

lemma Map_delete_absent: "\<not> Map_has m k \<Longrightarrow> Map_delete m k = m"
  by (induction m) (auto simp: Map_delete_def Map_has_def)

lemma Map_delete_twice: "Map_delete (Map_delete m k) k = Map_delete m k"
  by (simp add: Map_delete_def)

lemma not_has_Map_delete: "\<not> Map_has (Map_delete m k) k"
  by (simp add: Map_has_def map_of_Map_delete)

lemma values_Map_delete: "set (map snd (Map_delete m k)) \<subseteq> set (map snd m)"
  by (auto simp: Map_delete_def)

lemma Map_get_value: "Map_get m k = Some v \<Longrightarrow> v \<in> set (map snd m)"
  unfolding Map_get_def by (metis map_of_SomeD set_zip_rightD zip_map_fst_snd)

lemma pending_allowed: "JStr (lit ''pending_qr'') \<in> ALLOWED_STATUSES"
  and ready_allowed: "JStr (lit ''ready'') \<in> ALLOWED_STATUSES"
  and disconnected_allowed: "JStr (lit ''disconnected'') \<in> ALLOWED_STATUSES"
  by (simp_all add: ALLOWED_STATUSES_def)

text \<open>
  C5: \<^verbatim>\<open>create\<close> fails (the error for a missing id) when the id is empty, and fails with
  \<^verbatim>\<open>instance_exists\<close> when the id is present; in both cases the store, and with it the
  existing record, is unchanged. Otherwise it appends a record with status
  \<^verbatim>\<open>pending_qr\<close> and the supplied metadata (an empty object when none is supplied) and
  writes the whole catalog to the file before it returns the record.
\<close>

theorem store_create_spec:
  "(k = [] \<longrightarrow> store_create st k md = (Inl IdRequired, st)) \<and>
   (k \<noteq> [] \<longrightarrow> Map_has (instances st) k \<longrightarrow> store_create st k md = (Inl InstanceExists, st)) \<and>
   (k \<noteq> [] \<longrightarrow> \<not> Map_has (instances st) k \<longrightarrow>
      store_create st k md =
        (Inr \<lparr>iid = k, status = JStr (lit ''pending_qr''),
              metadata = (if truthy md then md else JObj [])\<rparr>,
         st\<lparr>instances := instances st @
                 [(k, \<lparr>iid = k, status = JStr (lit ''pending_qr''),
                        metadata = (if truthy md then md else JObj [])\<rparr>)],
            disk := Parsed (store_list st @
                 [\<lparr>iid = k, status = JStr (lit ''pending_qr''),
                   metadata = (if truthy md then md else JObj [])\<rparr>])\<rparr>))"
  by (simp add: store_create_def Map_set_absent store_save_def store_list_def js_or_def Let_def)

theorem store_create_spec_witness:
  "store_create st0 (lit ''a'') md0 = (Inr rec_a, st_a) \<and>
   store_create st_a (lit ''a'') JUndefined = (Inl InstanceExists, st_a) \<and>
   store_create st_a [] md0 = (Inl IdRequired, st_a)"
proof -
  have "store_create st0 (lit ''a'') md0 = (Inr rec_a, st_a)"
    using store_create_spec [of "lit ''a''" st0 md0]
    by (simp add: st0_def st_a_def rec_a_def md0_def Map_has_def store_list_def)
  moreover have "store_create st_a (lit ''a'') JUndefined = (Inl InstanceExists, st_a)"
    using store_create_spec [of "lit ''a''" st_a JUndefined]
    by (simp add: st_a_def Map_has_def)
  moreover have "store_create st_a [] md0 = (Inl IdRequired, st_a)"
    using store_create_spec [of "[]" st_a md0] by simp
  ultimately show ?thesis by blast
qed



text \<open>
  C9: \<^verbatim>\<open>delete\<close> returns whether the record existed; on an absent id it returns false
  and changes nothing (it has no error result); on a present id it removes that record
  only and writes the catalog; and a second deletion of the same id returns false and
  leaves the store as the first deletion left it.
\<close>

theorem store_delete_idempotent:
  "fst (store_delete st k) = Map_has (instances st) k \<and>
   (\<not> Map_has (instances st) k \<longrightarrow> store_delete st k = (False, st)) \<and>
   (Map_has (instances st) k \<longrightarrow>
      store_get (snd (store_delete st k)) k = None \<and>
      (\<forall>k'. k' \<noteq> k \<longrightarrow> store_get (snd (store_delete st k)) k' = store_get st k') \<and>
      disk (snd (store_delete st k)) = Parsed (store_list (snd (store_delete st k)))) \<and>
   store_delete (snd (store_delete st k)) k = (False, snd (store_delete st k))"
  by (auto simp: store_delete_def Let_def Map_delete_absent store_save_def store_list_def
      store_get_def Map_get_def map_of_Map_delete not_has_Map_delete Map_delete_twice)

theorem store_delete_idempotent_witness:
  "store_delete st_a (lit ''zz'') = (False, st_a) \<and>
   fst (store_delete st_a (lit ''a'')) = True \<and>
   store_get (snd (store_delete st_a (lit ''a''))) (lit ''a'') = None \<and>
   store_delete (snd (store_delete st_a (lit ''a''))) (lit ''a'') =
     (False, snd (store_delete st_a (lit ''a'')))"
proof -
  have zz: "\<not> Map_has (instances st_a) (lit ''zz'')"
    by (simp add: Map_has_def st_a_def)
  have a: "Map_has (instances st_a) (lit ''a'')"
    by (simp add: Map_has_def st_a_def)
  have "store_delete st_a (lit ''zz'') = (False, st_a)"
    using store_delete_idempotent [of st_a "lit ''zz''"] zz by simp
  moreover have "fst (store_delete st_a (lit ''a'')) = True \<and>
     store_get (snd (store_delete st_a (lit ''a''))) (lit ''a'') = None \<and>
     store_delete (snd (store_delete st_a (lit ''a''))) (lit ''a'') =
       (False, snd (store_delete st_a (lit ''a'')))"
    using store_delete_idempotent [of st_a "lit ''a''"] a by simp
  ultimately show ?thesis by blast
qed

subsection \<open>The statuses of the catalog\<close>

lemma statuses_allowed_save [simp]: "statuses_allowed (store_save st) = statuses_allowed st"
  by (simp add: statuses_allowed_def store_save_def store_list_def)

lemma statuses_allowed_set:
  assumes "statuses_allowed st" "status r \<in> ALLOWED_STATUSES"
  shows "statuses_allowed (st\<lparr>instances := Map_set (instances st) k r\<rparr>)"
  using assms by (fastforce simp: statuses_allowed_def store_list_def dest: in_Map_set)

lemma statuses_allowed_create:
  "statuses_allowed st \<Longrightarrow> statuses_allowed (snd (store_create st k md))"
  by (simp add: store_create_def Let_def statuses_allowed_set pending_allowed)

lemma statuses_allowed_delete:
  "statuses_allowed st \<Longrightarrow> statuses_allowed (snd (store_delete st k))"
  by (auto simp: store_delete_def Let_def statuses_allowed_def store_list_def store_save_def
      Map_delete_def)

lemma statuses_allowed_updateStatus:
  "statuses_allowed st \<Longrightarrow> statuses_allowed (snd (store_updateStatus st k s))"
  by (simp add: store_updateStatus_def Let_def statuses_allowed_set split: option.splits)

lemma statuses_allowed_updateMetadata:
  assumes "statuses_allowed st"
  shows "statuses_allowed (snd (store_updateMetadata st k md))"
proof (cases "Map_get (instances st) k")
  case None
  then show ?thesis using assms by (simp add: store_updateMetadata_def)
next
  case (Some r)
  then have "status r \<in> ALLOWED_STATUSES"
    using assms Map_get_value [of "instances st" k r]
    by (auto simp: statuses_allowed_def store_list_def)
  then show ?thesis
    using assms Some by (simp add: store_updateMetadata_def Let_def statuses_allowed_set)
qed

lemma and_then_preserves:
  assumes "P (snd r)" and "\<And>w. P w \<Longrightarrow> P (snd (f w))"
  shows "P (snd (and_then r f))"
  using assms by (cases r; cases "fst r") (auto simp: and_then_def)

lemma try_catch_preserves:
  assumes "P (snd r)" and "\<And>e w. P w \<Longrightarrow> P (snd (h e w))"
  shows "P (snd (try_catch r h))"
  using assms by (cases r; cases "fst r") (auto simp: try_catch_def)

lemma store_emit [simp]: "store (emit e w) = store w"
  by (simp add: emit_def)

lemma store_update_session [simp]: "store (update_session k f w) = store w"
  by (simp add: update_session_def split: option.splits)

lemmas cleanup_defs = cleanupSession_def and_then_def try_catch_def sock_logout_def
  sock_ws_close_def logout_catch_def fsp_rm_def emit_def Let_def

lemma instances_cleanupSession [simp]:
  "instances (store (snd (cleanupSession env w k keepData))) = instances (store w)"
  by (simp add: cleanup_defs split: option.splits ws_outcome.splits error.splits)

lemma store_getOrCreateSession [simp]: "store (snd (getOrCreateSession env w k)) = store w"
  by (simp add: getOrCreateSession_def initializeForInstance_def Let_def split: option.splits)

lemma store_post_messages_send [simp]:
  "store (snd (post_messages_send env w k to payload ts)) = store w"
proof -
  obtain r w' where g: "getOrCreateSession env w k = (r, w')" by (cases "getOrCreateSession env w k")
  then have "store w' = store w" using store_getOrCreateSession [of env w k] by simp
  then show ?thesis
    by (simp add: post_messages_send_def g Let_def split: sum.splits)
qed

lemma store_post_messages [simp]: "store (snd (post_messages env w body ts)) = store w"
  by (simp add: post_messages_def Let_def split: jsval.splits option.splits)

lemma catalog_ok_updateStatus_call: "catalog_ok w \<Longrightarrow> catalog_ok (snd (updateStatus_call k s w))"
  using statuses_allowed_updateStatus [of "store w" k s]
  by (auto simp: catalog_ok_def updateStatus_call_def split: prod.splits sum.splits)

lemma catalog_ok_update_session [simp]: "catalog_ok (update_session k f w) = catalog_ok w"
  by (simp add: catalog_ok_def)

lemma catalog_ok_cleanupSession: "catalog_ok w \<Longrightarrow> catalog_ok (snd (cleanupSession env w k keepData))"
  by (simp add: catalog_ok_def statuses_allowed_def store_list_def)

lemma catalog_ok_qr_block:
  "catalog_ok w \<Longrightarrow> catalog_ok (snd (qr_block env k update now w))"
  by (simp add: qr_block_def Let_def catalog_ok_updateStatus_call split: sum.splits)

lemma catalog_ok_connection_block:
  assumes "catalog_ok w"
  shows "catalog_ok (snd (connection_block env k update w))"
proof -
  have "catalog_ok (snd (and_then (updateStatus_call k (JStr (lit ''disconnected'')) w2)
          (\<lambda>w. cleanupSession env w k False)))" if "catalog_ok w2" for w2
    by (rule and_then_preserves)
      (use that in \<open>simp_all add: catalog_ok_updateStatus_call catalog_ok_cleanupSession\<close>)
  with assms show ?thesis
    by (simp add: connection_block_def Let_def catalog_ok_updateStatus_call)
qed

lemma catalog_ok_handleConnectionUpdate:
  assumes "catalog_ok w"
  shows "catalog_ok (snd (handleConnectionUpdate env w k update now))"
proof (cases "sessions w k")
  case None
  then show ?thesis using assms by (simp add: handleConnectionUpdate_def)
next
  case (Some session)
  have "catalog_ok (snd (and_then (qr_block env k update now w) (connection_block env k update)))"
    by (rule and_then_preserves)
      (use assms in \<open>simp_all add: catalog_ok_qr_block catalog_ok_connection_block\<close>)
  then show ?thesis using assms Some by (simp add: handleConnectionUpdate_def)
qed

lemma catalog_ok_step: "catalog_ok w \<Longrightarrow> catalog_ok (step w a)"
proof (cases a)
  case (ConnectionUpdate env k u now)
  assume "catalog_ok w"
  then show ?thesis using ConnectionUpdate by (simp add: catalog_ok_handleConnectionUpdate)
next
  case (CleanupSession env k keepData)
  assume "catalog_ok w"
  then show ?thesis using CleanupSession by (simp add: catalog_ok_cleanupSession)
qed (simp_all add: catalog_ok_def statuses_allowed_create statuses_allowed_delete
      statuses_allowed_updateStatus statuses_allowed_updateMetadata)

lemma catalog_ok_run: "catalog_ok w \<Longrightarrow> catalog_ok (run w acts)"
  unfolding run_def by (induction acts arbitrary: w) (simp_all add: catalog_ok_step)

lemma status_load_instance:
  assumes "p \<in> set (load_instance m r)"
  shows "p \<in> set m \<or> status (snd p) = js_or (status r) (JStr (lit ''pending_qr''))"
proof -
  obtain a x where p: "p = (a, x)" by (cases p)
  from assms have "x = \<lparr>iid = iid r, status = js_or (status r) (JStr (lit ''pending_qr'')),
        metadata = js_or (metadata r) (JObj [])\<rparr> \<or> (a, x) \<in> set m"
    unfolding p load_instance_def by (rule in_Map_set)
  then show ?thesis using p by auto
qed

lemma values_load:
  assumes "\<forall>p \<in> set m. status (snd p) \<in> ALLOWED_STATUSES"
    and "\<forall>r \<in> set rs. \<not> truthy (status r) \<or> status r \<in> ALLOWED_STATUSES"
  shows "\<forall>p \<in> set (foldl load_instance m rs). status (snd p) \<in> ALLOWED_STATUSES"
  using assms
proof (induction rs arbitrary: m)
  case Nil
  then show ?case by simp
next
  case (Cons r rs)
  have ok: "js_or (status r) (JStr (lit ''pending_qr'')) \<in> ALLOWED_STATUSES"
    using Cons.prems(2) by (auto simp: js_or_def pending_allowed)
  have "\<forall>p \<in> set (load_instance m r). status (snd p) \<in> ALLOWED_STATUSES"
  proof
    fix p assume "p \<in> set (load_instance m r)"
    then have "p \<in> set m \<or> status (snd p) = js_or (status r) (JStr (lit ''pending_qr''))"
      by (rule status_load_instance)
    then show "status (snd p) \<in> ALLOWED_STATUSES"
      using Cons.prems(1) ok by auto
  qed
  moreover have "\<forall>r \<in> set rs. \<not> truthy (status r) \<or> status r \<in> ALLOWED_STATUSES"
    using Cons.prems(2) by simp
  ultimately have "\<forall>p \<in> set (foldl load_instance (load_instance m r) rs).
      status (snd p) \<in> ALLOWED_STATUSES"
    by (rule Cons.IH)
  then show ?case by simp
qed

lemma store_init_Parsed:
  "store_init (new_store (Parsed rs)) =
     (None, \<lparr>instances = foldl load_instance [] rs, initialized = True, disk = Parsed rs\<rparr>)"
  by (simp add: store_init_def new_store_def ensureInstancesFile_def)

lemma store_init_other:
  "f = Absent \<or> f = Empty \<or> f = Malformed \<Longrightarrow> instances (snd (store_init (new_store f))) = []"
  by (auto simp: store_init_def new_store_def ensureInstancesFile_def)

lemma statuses_allowed_init:
  assumes "file_statuses_ok f"
  shows "statuses_allowed (snd (store_init (new_store f)))"
proof (cases f)
  case (Parsed rs)
  then have "\<forall>r \<in> set rs. \<not> truthy (status r) \<or> status r \<in> ALLOWED_STATUSES"
    using assms by (simp add: file_statuses_ok_def)
  then have "\<forall>p \<in> set (foldl load_instance [] rs). status (snd p) \<in> ALLOWED_STATUSES"
    by (intro values_load) simp_all
  then show ?thesis unfolding Parsed store_init_Parsed
    by (simp add: statuses_allowed_def store_list_def)
next
  case Absent
  then show ?thesis using store_init_other [of f]
    by (simp add: statuses_allowed_def store_list_def)
next
  case Empty
  then show ?thesis using store_init_other [of f]
    by (simp add: statuses_allowed_def store_list_def)
next
  case Malformed
  then show ?thesis using store_init_other [of f]
    by (simp add: statuses_allowed_def store_list_def)
qed

text \<open>
  C2, as the code has it. When every record of the catalog file carries one of the three
  statuses or none, every state reached from the load by any sequence of \<^verbatim>\<open>create\<close>,
  \<^verbatim>\<open>delete\<close>, \<^verbatim>\<open>updateStatus\<close>, \<^verbatim>\<open>updateMetadata\<close>, connection updates, session
  cleanups, session creations and message requests has in every record one of the statuses
  \<^verbatim>\<open>pending_qr\<close>, \<^verbatim>\<open>ready\<close>, \<^verbatim>\<open>disconnected\<close>; the same holds from any state whose
  statuses are allowed; and \<^verbatim>\<open>updateStatus\<close> rejects every other status without
  changing the store.
\<close>

theorem statuses_allowed_reachable:
  "(file_statuses_ok f \<longrightarrow> statuses_allowed (store (run (loaded f ss dirs) acts))) \<and>
   (statuses_allowed (store w) \<longrightarrow> statuses_allowed (store (run w acts))) \<and>
   (s \<notin> ALLOWED_STATUSES \<longrightarrow> store_updateStatus st k s = (Inl InvalidStatus, st))"
proof -
  have "file_statuses_ok f \<longrightarrow> catalog_ok (loaded f ss dirs)"
    by (simp add: catalog_ok_def loaded_def statuses_allowed_init)
  then have "file_statuses_ok f \<longrightarrow> statuses_allowed (store (run (loaded f ss dirs) acts))"
    using catalog_ok_run [of "loaded f ss dirs" acts] by (auto simp: catalog_ok_def)
  moreover have "statuses_allowed (store w) \<longrightarrow> statuses_allowed (store (run w acts))"
    using catalog_ok_run [of w acts] by (simp add: catalog_ok_def)
  moreover have "s \<notin> ALLOWED_STATUSES \<longrightarrow> store_updateStatus st k s = (Inl InvalidStatus, st)"
    by (simp add: store_updateStatus_def)
  ultimately show ?thesis by blast
qed

theorem statuses_allowed_reachable_witness:
  "file_statuses_ok file_ab \<and>
   statuses_allowed (store (run (loaded file_ab Map.empty {}) acts_ab)) \<and>
   map status (store_list (store (run (loaded file_ab Map.empty {}) acts_ab))) =
     [JStr (lit ''disconnected''), JStr (lit ''pending_qr'')] \<and>
   store_updateStatus st_a (lit ''a'') (JStr (lit ''bogus'')) = (Inl InvalidStatus, st_a)"
proof -
  have f: "file_statuses_ok file_ab"
    by (simp add: file_statuses_ok_def file_ab_def ALLOWED_STATUSES_def)
  have b: "JStr (lit ''bogus'') \<notin> ALLOWED_STATUSES"
    by (simp add: ALLOWED_STATUSES_def)
  have l: "store (loaded file_ab Map.empty {}) =
      \<lparr>instances = [(lit ''a'', \<lparr>iid = lit ''a'', status = JStr (lit ''ready''), metadata = JObj []\<rparr>),
                    (lit ''b'', \<lparr>iid = lit ''b'', status = JStr (lit ''pending_qr''), metadata = JObj []\<rparr>)],
        initialized = True, disk = file_ab\<rparr>"
    by (simp add: loaded_def file_ab_def store_init_Parsed load_instance_def js_or_def)
  have r: "map status (store_list (store (run (loaded file_ab Map.empty {}) acts_ab))) =
     [JStr (lit ''disconnected''), JStr (lit ''pending_qr'')]"
    by (simp add: run_def acts_ab_def l store_create_def store_updateStatus_def
        store_updateMetadata_def store_delete_def store_save_def store_list_def
        Map_has_def Map_get_def Map_delete_def js_or_def md0_def ALLOWED_STATUSES_def Let_def)
  show ?thesis
    using f b r statuses_allowed_reachable [of file_ab Map.empty "{}" acts_ab
        "loaded file_ab Map.empty {}" "JStr (lit ''bogus'')" st_a "lit ''a''"]
    by simp
qed

text \<open>
  C2 as stated does not hold for every load: \<^verbatim>\<open>init\<close> copies a truthy status of the file
  without checking it, so a file whose record has the status \<^verbatim>\<open>bogus\<close> loads without
  error into a catalog that holds that status.
\<close>

theorem load_keeps_unknown_status:
  "fst (store_init (new_store file_bogus)) = None \<and>
   store_list (store (run (loaded file_bogus Map.empty {}) [])) =
     [\<lparr>iid = lit ''a'', status = JStr (lit ''bogus''), metadata = JObj []\<rparr>] \<and>
   JStr (lit ''bogus'') \<notin> ALLOWED_STATUSES \<and>
   \<not> statuses_allowed (store (run (loaded file_bogus Map.empty {}) []))"
  by (simp add: file_bogus_def store_init_Parsed loaded_def run_def store_list_def
      load_instance_def js_or_def ALLOWED_STATUSES_def statuses_allowed_def)

subsection \<open>getQRCode\<close>

text \<open>
  C7: for a session that holds a QR payload, \<^verbatim>\<open>getQRCode\<close> returns the payload with
  \<^verbatim>\<open>expiresIn\<close> equal to the maximum of 0 and the integer part, rounded down, of
  \<open>(expiresAt - now) / 1000\<close>; a later read of the same payload never gives a larger
  value; a read at or after the expiry gives exactly 0, and no read gives a negative
  value. Without a session, or with a session that holds no QR payload, the answer is
  absent.
\<close>

theorem getQRCode_expiresIn:
  "(\<forall>session q. sessions w k = Some session \<longrightarrow> qr session = Some q \<longrightarrow>
      getQRCode w k now =
        Some \<lparr>instanceId = k,
              image = \<lparr>image_type = qr_type q, image_value = qr_value q,
                       expiresIn = max 0 ((expiresAt q - now) div 1000)\<rparr>\<rparr> \<and>
      (\<forall>later a b. now \<le> later \<longrightarrow> qr_expiresIn w k now = Some a \<longrightarrow>
         qr_expiresIn w k later = Some b \<longrightarrow> b \<le> a) \<and>
      (expiresAt q \<le> now \<longrightarrow> qr_expiresIn w k now = Some 0) \<and>
      (\<exists>a. qr_expiresIn w k now = Some a \<and> 0 \<le> a)) \<and>
   (sessions w k = None \<longrightarrow> getQRCode w k now = None) \<and>
   (\<forall>session. sessions w k = Some session \<longrightarrow> qr session = None \<longrightarrow>
      getQRCode w k now = None)"
proof -
  have mono: "max 0 ((e - later) div 1000) \<le> max 0 ((e - now) div 1000)"
    if "now \<le> later" for e later :: int
  proof -
    have "(e - later) div 1000 \<le> (e - now) div 1000"
      using that by (intro zdiv_mono1) simp_all
    then show ?thesis by simp
  qed
  have zero: "max 0 ((e - now) div 1000) = 0" if "e \<le> now" for e :: int
  proof -
    have "(e - now) div 1000 \<le> 0 div 1000"
      using that by (intro zdiv_mono1) simp_all
    then show ?thesis by simp
  qed
  show ?thesis
    by (auto simp: getQRCode_def qr_expiresIn_def Let_def mono zero)
qed

theorem getQRCode_expiresIn_witness:
  "qr_expiresIn w_qr (lit ''a'') 1000 = Some 120 \<and>
   qr_expiresIn w_qr (lit ''a'') 1001 = Some 119 \<and>
   qr_expiresIn w_qr (lit ''a'') 120500 = Some 0 \<and>
   qr_expiresIn w_qr (lit ''a'') 121000 = Some 0 \<and>
   qr_expiresIn w_qr (lit ''a'') 999999 = Some 0 \<and>
   getQRCode w_qr (lit ''b'') 1000 = None \<and>
   getQRCode w_qr (lit ''zz'') 1000 = None"
proof -
  have a: "sessions w_qr (lit ''a'') = Some \<lparr>qr = Some qr_abc, connection = JStr (lit ''close'')\<rparr>"
    by (simp add: w_qr_def)
  have b: "sessions w_qr (lit ''b'') = Some \<lparr>qr = None, connection = JStr (lit ''open'')\<rparr>"
    by (simp add: w_qr_def)
  have z: "sessions w_qr (lit ''zz'') = None"
    by (simp add: w_qr_def)
  have e: "expiresAt qr_abc = 121000" by (simp add: qr_abc_def)
  have "qr_expiresIn w_qr (lit ''a'') 1000 = Some 120"
    using getQRCode_expiresIn [of w_qr "lit ''a''" 1000] a e by (simp add: qr_expiresIn_def)
  moreover have "qr_expiresIn w_qr (lit ''a'') 1001 = Some 119"
    using getQRCode_expiresIn [of w_qr "lit ''a''" 1001] a e by (simp add: qr_expiresIn_def)
  moreover have "qr_expiresIn w_qr (lit ''a'') 120500 = Some 0"
    using getQRCode_expiresIn [of w_qr "lit ''a''" 120500] a e by (simp add: qr_expiresIn_def)
  moreover have "qr_expiresIn w_qr (lit ''a'') 121000 = Some 0"
    using getQRCode_expiresIn [of w_qr "lit ''a''" 121000] a e by simp
  moreover have "qr_expiresIn w_qr (lit ''a'') 999999 = Some 0"
    using getQRCode_expiresIn [of w_qr "lit ''a''" 999999] a e by simp
  moreover have "getQRCode w_qr (lit ''b'') 1000 = None"
    using getQRCode_expiresIn [of w_qr "lit ''b''" 1000] b by simp
  moreover have "getQRCode w_qr (lit ''zz'') 1000 = None"
    using getQRCode_expiresIn [of w_qr "lit ''zz''" 1000] z by simp
  ultimately show ?thesis by blast
qed

subsection \<open>cleanupSession\<close>

lemma starts_with_valid: "starts_with p q \<Longrightarrow> valid_path q \<Longrightarrow> valid_path p"
proof -
  assume a: "starts_with p q" and v: "valid_path q"
  have "set (take (length p) q) \<subseteq> set q" by (rule set_take_subset)
  then have "set p \<subseteq> set q" using a by (simp add: starts_with_def)
  then show ?thesis using v by (auto simp: valid_path_def)
qed

lemma authDir_logout [simp]: "authDir (env\<lparr>logout := f\<rparr>) k = authDir env k"
  by (simp add: authDir_def SESSIONS_DIR_def DATA_DIR_def)

lemma INSTANCES_FILE_logout [simp]: "INSTANCES_FILE (env\<lparr>logout := f\<rparr>) = INSTANCES_FILE env"
  by (simp add: INSTANCES_FILE_def DATA_DIR_def)

lemma rm_error_logout [simp]: "rm_error (env\<lparr>logout := f\<rparr>) p = rm_error env p"
  by (simp add: rm_error_def)

lemma cleanupSession_fst:
  "fst (cleanupSession env w k keepData) =
     (if keepData then None else rm_error env (authDir env k))"
  by (simp add: cleanup_defs split: option.splits ws_outcome.splits error.splits)

lemma cleanupSession_sessions:
  "sessions (snd (cleanupSession env w k keepData)) = (sessions w)(k := None)"
  by (simp add: cleanup_defs split: option.splits ws_outcome.splits error.splits)

lemma cleanupSession_trace:
  "trace (snd (cleanupSession env w k keepData)) =
     trace w @ (case sessions w k of None \<Rightarrow> [] | Some s \<Rightarrow> cleanup_calls env k) @
     (if keepData then [] else [Rm (authDir env k)])"
  by (simp add: cleanup_defs cleanup_calls_def split: option.splits ws_outcome.splits error.splits)

lemma cleanupSession_auth_dirs:
  "auth_dirs (snd (cleanupSession env w k keepData)) =
     (if \<not> keepData \<and> rm_error env (authDir env k) = None
      then {q \<in> auth_dirs w. \<not> starts_with (authDir env k) q} else auth_dirs w)"
  by (simp add: cleanup_defs split: option.splits ws_outcome.splits error.splits)

lemma cleanupSession_disk:
  "disk (store (snd (cleanupSession env w k keepData))) =
     (if \<not> keepData \<and> rm_error env (authDir env k) = None \<and>
         starts_with (authDir env k) (INSTANCES_FILE env)
      then Absent else disk (store w))"
  by (simp add: cleanup_defs split: option.splits ws_outcome.splits error.splits)

lemma cleanupSession_not_logged_in:
  assumes "logout env k = Some m" "not_logged_in m"
  shows "cleanupSession env w k keepData = cleanupSession (env\<lparr>logout := \<lambda>k. None\<rparr>) w k keepData"
  using assms by (simp add: cleanup_defs split: option.splits ws_outcome.splits error.splits)

lemma cleanupSession_gone:
  assumes "\<not> keepData" "dirs_valid w" "q \<in> auth_dirs (snd (cleanupSession env w k keepData))"
    and "rm_fails env (authDir env k) = None"
  shows "\<not> starts_with (authDir env k) q"
proof (cases "valid_path (authDir env k)")
  case True
  then have "rm_error env (authDir env k) = None" using assms(4) by (simp add: rm_error_def)
  then show ?thesis using assms by (simp add: cleanupSession_auth_dirs)
next
  case False
  then have "rm_error env (authDir env k) \<noteq> None" by (simp add: rm_error_def)
  then have "auth_dirs (snd (cleanupSession env w k keepData)) = auth_dirs w"
    by (auto simp: cleanupSession_auth_dirs)
  then have "q \<in> auth_dirs w" using assms(3) by simp
  then have "valid_path q" using assms(2) by (simp add: dirs_valid_def)
  then show ?thesis using False starts_with_valid by blast
qed

text \<open>
  C8: \<^verbatim>\<open>cleanupSession\<close> removes the session entry of the instance in every case.
  \<^verbatim>\<open>fsp.rm\<close> is called on \<^verbatim>\<open>path.join(SESSIONS_DIR, id)\<close> exactly when \<^verbatim>\<open>keepData\<close>
  is false: with \<^verbatim>\<open>keepData\<close> true the credential directories and the catalog file are
  left as they are, and with \<^verbatim>\<open>keepData\<close> false a removal that does not fail removes
  everything at or under that path, so that in a world of valid directories nothing at
  or under the credential directory of the instance remains. For a registered session
  the logout and the closing of the transport are called, and whatever they do, the only
  error that can leave \<^verbatim>\<open>cleanupSession\<close> is that of \<^verbatim>\<open>fsp.rm\<close>. A logout that fails
  with a "not logged in" error leaves the same result as a logout that succeeds. The
  records in memory are not touched.
\<close>

theorem cleanupSession_spec:
  "sessions (snd (cleanupSession env w k keepData)) = (sessions w)(k := None) \<and>
   fst (cleanupSession env w k keepData) =
     (if keepData then None else rm_error env (authDir env k)) \<and>
   trace (snd (cleanupSession env w k keepData)) =
     trace w @ (case sessions w k of None \<Rightarrow> [] | Some s \<Rightarrow> cleanup_calls env k) @
     (if keepData then [] else [Rm (authDir env k)]) \<and>
   (keepData \<longrightarrow>
      auth_dirs (snd (cleanupSession env w k keepData)) = auth_dirs w \<and>
      disk (store (snd (cleanupSession env w k keepData))) = disk (store w)) \<and>
   (\<not> keepData \<longrightarrow> rm_error env (authDir env k) = None \<longrightarrow>
      auth_dirs (snd (cleanupSession env w k keepData)) =
        {q \<in> auth_dirs w. \<not> starts_with (authDir env k) q} \<and>
      disk (store (snd (cleanupSession env w k keepData))) =
        (if starts_with (authDir env k) (INSTANCES_FILE env) then Absent else disk (store w))) \<and>
   (\<not> keepData \<longrightarrow> dirs_valid w \<longrightarrow> rm_fails env (authDir env k) = None \<longrightarrow>
      (\<forall>q \<in> auth_dirs (snd (cleanupSession env w k keepData)). \<not> starts_with (authDir env k) q)) \<and>
   instances (store (snd (cleanupSession env w k keepData))) = instances (store w) \<and>
   (\<forall>m. logout env k = Some m \<longrightarrow> not_logged_in m \<longrightarrow>
      cleanupSession env w k keepData =
        cleanupSession (env\<lparr>logout := \<lambda>k. None\<rparr>) w k keepData)"
proof -
  have g: "\<not> keepData \<longrightarrow> dirs_valid w \<longrightarrow> rm_fails env (authDir env k) = None \<longrightarrow>
      (\<forall>q \<in> auth_dirs (snd (cleanupSession env w k keepData)). \<not> starts_with (authDir env k) q)"
    using cleanupSession_gone [of keepData w _ env k] by blast
  have n: "\<forall>m. logout env k = Some m \<longrightarrow> not_logged_in m \<longrightarrow>
      cleanupSession env w k keepData =
        cleanupSession (env\<lparr>logout := \<lambda>k. None\<rparr>) w k keepData"
    using cleanupSession_not_logged_in [of env k _ w keepData] by blast
  show ?thesis
    using g n
    by (simp add: cleanupSession_fst cleanupSession_sessions cleanupSession_trace
        cleanupSession_auth_dirs cleanupSession_disk del: fun_upd_apply)
qed

lemma authDir_gone [simp]:
  "authDir env_gone k = authDir env_ok k" "authDir env_denied k = authDir env_ok k"
  "INSTANCES_FILE env_gone = INSTANCES_FILE env_ok"
  by (simp_all add: authDir_def INSTANCES_FILE_def SESSIONS_DIR_def DATA_DIR_def env_gone_def
      env_denied_def)

lemma authDir_ok_a: "authDir env_ok (lit ''a'') = dir_of (lit ''a'')"
  by (simp add: authDir_def SESSIONS_DIR_def DATA_DIR_def env_ok_def
      path_join_def normalize_step_def dir_of_def lit_def)

lemma authDir_ok_up: "authDir env_ok id_up = [lit ''srv'', lit ''frontend'', lit ''data'']"
  by (simp add: authDir_def SESSIONS_DIR_def DATA_DIR_def env_ok_def
      path_join_def normalize_step_def id_up_def lit_def)

lemma authDir_ok_nul: "authDir env_ok id_nul = dir_of id_nul"
  by (simp add: authDir_def SESSIONS_DIR_def DATA_DIR_def env_ok_def
      path_join_def normalize_step_def id_nul_def dir_of_def lit_def)

lemma INSTANCES_FILE_ok:
  "INSTANCES_FILE env_ok = [lit ''srv'', lit ''frontend'', lit ''data'', lit ''instances.json'']"
  by (simp add: INSTANCES_FILE_def DATA_DIR_def env_ok_def)

lemma valid_dir_of: "valid_path (dir_of k) \<longleftrightarrow> 0 \<notin> set k"
  by (simp add: valid_path_def dir_of_def lit_def)

lemma rm_error_ok: "rm_error env_ok p = (if valid_path p then None else Some InvalidArgValue)"
  "rm_error env_gone p = (if valid_path p then None else Some InvalidArgValue)"
  by (simp_all add: rm_error_def env_ok_def env_gone_def)

lemma valid_authDir_a: "valid_path (authDir env_ok (lit ''a''))"
  unfolding authDir_ok_a by (simp add: valid_dir_of lit_def)

theorem cleanupSession_spec_witness:
  "fst (cleanupSession env_gone w_qr (lit ''a'') False) = None \<and>
   sessions (snd (cleanupSession env_gone w_qr (lit ''a'') False)) (lit ''a'') = None \<and>
   dir_of (lit ''a'') \<notin> auth_dirs (snd (cleanupSession env_gone w_qr (lit ''a'') False)) \<and>
   dir_of (lit ''b'') \<in> auth_dirs (snd (cleanupSession env_gone w_qr (lit ''a'') False)) \<and>
   disk (store (snd (cleanupSession env_gone w_qr (lit ''a'') False))) = Parsed [rec_a] \<and>
   trace (snd (cleanupSession env_gone w_qr (lit ''a'') False)) =
     [Logout (lit ''a''), WsClose (lit ''a''), Rm (dir_of (lit ''a''))] \<and>
   cleanupSession env_gone w_qr (lit ''a'') False =
     cleanupSession (env_gone\<lparr>logout := \<lambda>k. None\<rparr>) w_qr (lit ''a'') False \<and>
   sessions (snd (cleanupSession env_gone w_qr (lit ''a'') True)) (lit ''a'') = None \<and>
   auth_dirs (snd (cleanupSession env_gone w_qr (lit ''a'') True)) = auth_dirs w_qr \<and>
   fst (cleanupSession env_gone w_qr id_up False) = None \<and>
   dir_of (lit ''a'') \<notin> auth_dirs (snd (cleanupSession env_gone w_qr id_up False)) \<and>
   dir_of (lit ''b'') \<notin> auth_dirs (snd (cleanupSession env_gone w_qr id_up False)) \<and>
   disk (store (snd (cleanupSession env_gone w_qr id_up False))) = Absent \<and>
   fst (cleanupSession env_gone w_qr id_nul False) = Some InvalidArgValue \<and>
   sessions (snd (cleanupSession env_gone w_qr id_nul False)) id_nul = None \<and>
   fst (cleanupSession env_denied w_qr (lit ''a'') False) =
     Some (External (lit ''EACCES: permission denied'')) \<and>
   sessions (snd (cleanupSession env_denied w_qr (lit ''a'') False)) (lit ''a'') = None"
proof -
  note A = cleanupSession_spec [of env_gone w_qr "lit ''a''" False]
  note B = cleanupSession_spec [of env_gone w_qr "lit ''a''" True]
  note C = cleanupSession_spec [of env_gone w_qr id_up False]
  note D = cleanupSession_spec [of env_gone w_qr id_nul False]
  note E = cleanupSession_spec [of env_denied w_qr "lit ''a''" False]
  have ra: "rm_error env_gone (authDir env_gone (lit ''a'')) = None"
    using valid_authDir_a by (simp add: rm_error_ok)
  have ru: "rm_error env_gone (authDir env_gone id_up) = None"
    by (simp add: rm_error_ok authDir_ok_up) (simp add: valid_path_def lit_def)
  have rn: "rm_error env_gone (authDir env_gone id_nul) = Some InvalidArgValue"
    by (simp add: rm_error_ok authDir_ok_nul valid_dir_of) (simp add: id_nul_def)
  have rd: "rm_error env_denied (authDir env_denied (lit ''a'')) =
      Some (External (lit ''EACCES: permission denied''))"
    using valid_authDir_a by (simp add: rm_error_def) (simp add: env_denied_def)
  have da: "auth_dirs w_qr = {dir_of (lit ''a''), dir_of (lit ''b'')}"
    by (simp add: w_qr_def)
  have dk: "disk (store w_qr) = Parsed [rec_a]" by (simp add: w_qr_def st_a_def)
  have sa: "sessions w_qr (lit ''a'') =
      Some \<lparr>qr = Some qr_abc, connection = JStr (lit ''close'')\<rparr>"
    by (simp add: w_qr_def)
  have tq: "trace w_qr = []" by (simp add: w_qr_def)
  have l: "logout env_gone (lit ''a'') = Some (lit ''Error: Not Logged In'')"
    by (simp add: env_gone_def)
  have n: "not_logged_in (lit ''Error: Not Logged In'')"
    by (simp add: not_logged_in_def lit_def ascii_lower_def starts_with_def)
  have calls: "cleanup_calls env_gone (lit ''a'') = [Logout (lit ''a''), WsClose (lit ''a'')]"
    using n by (simp add: cleanup_calls_def env_gone_def)
  have ab: "starts_with (dir_of (lit ''a'')) (dir_of (lit ''a''))"
      "\<not> starts_with (dir_of (lit ''a'')) (dir_of (lit ''b''))"
      "\<not> starts_with (dir_of (lit ''a'')) (INSTANCES_FILE env_ok)"
    by (simp_all add: starts_with_def dir_of_def INSTANCES_FILE_ok)
  have up: "starts_with (authDir env_ok id_up) (dir_of (lit ''a''))"
      "starts_with (authDir env_ok id_up) (dir_of (lit ''b''))"
      "starts_with (authDir env_ok id_up) (INSTANCES_FILE env_ok)"
    by (simp_all add: starts_with_def dir_of_def authDir_ok_up INSTANCES_FILE_ok)
  have c1: "fst (cleanupSession env_gone w_qr (lit ''a'') False) = None"
    using A ra by simp
  have "sessions (snd (cleanupSession env_gone w_qr (lit ''a'') False)) =
      (sessions w_qr)(lit ''a'' := None)"
    using A by blast
  then have c2: "sessions (snd (cleanupSession env_gone w_qr (lit ''a'') False)) (lit ''a'') = None"
    by simp
  have a3: "auth_dirs (snd (cleanupSession env_gone w_qr (lit ''a'') False)) =
      {q \<in> auth_dirs w_qr. \<not> starts_with (authDir env_gone (lit ''a'')) q}"
    using A ra by blast
  have c3: "dir_of (lit ''a'') \<notin> auth_dirs (snd (cleanupSession env_gone w_qr (lit ''a'') False))"
    using ab by (simp add: a3 authDir_ok_a)
  have c4: "dir_of (lit ''b'') \<in> auth_dirs (snd (cleanupSession env_gone w_qr (lit ''a'') False))"
    using ab by (simp add: a3 authDir_ok_a da)
  have "disk (store (snd (cleanupSession env_gone w_qr (lit ''a'') False))) =
      (if starts_with (authDir env_gone (lit ''a'')) (INSTANCES_FILE env_gone) then Absent
       else disk (store w_qr))"
    using A ra by blast
  then have c5: "disk (store (snd (cleanupSession env_gone w_qr (lit ''a'') False))) = Parsed [rec_a]"
    using ab by (simp add: authDir_ok_a dk)
  have "trace (snd (cleanupSession env_gone w_qr (lit ''a'') False)) =
      trace w_qr @ (case sessions w_qr (lit ''a'') of None \<Rightarrow> []
                    | Some s \<Rightarrow> cleanup_calls env_gone (lit ''a'')) @
      (if False then [] else [Rm (authDir env_gone (lit ''a''))])"
    using A by blast
  then have c6: "trace (snd (cleanupSession env_gone w_qr (lit ''a'') False)) =
      [Logout (lit ''a''), WsClose (lit ''a''), Rm (dir_of (lit ''a''))]"
    by (simp add: sa calls tq authDir_ok_a)
  have c7: "cleanupSession env_gone w_qr (lit ''a'') False =
     cleanupSession (env_gone\<lparr>logout := \<lambda>k. None\<rparr>) w_qr (lit ''a'') False"
    using A l n by blast
  have "sessions (snd (cleanupSession env_gone w_qr (lit ''a'') True)) =
      (sessions w_qr)(lit ''a'' := None)"
    using B by blast
  then have c8: "sessions (snd (cleanupSession env_gone w_qr (lit ''a'') True)) (lit ''a'') = None"
    by simp
  have c9: "auth_dirs (snd (cleanupSession env_gone w_qr (lit ''a'') True)) = auth_dirs w_qr"
    using B by blast
  have c10: "fst (cleanupSession env_gone w_qr id_up False) = None"
    using C ru by simp
  have u3: "auth_dirs (snd (cleanupSession env_gone w_qr id_up False)) =
      {q \<in> auth_dirs w_qr. \<not> starts_with (authDir env_gone id_up) q}"
    using C ru by blast
  have c11: "dir_of (lit ''a'') \<notin> auth_dirs (snd (cleanupSession env_gone w_qr id_up False))"
    using up by (simp add: u3)
  have c12: "dir_of (lit ''b'') \<notin> auth_dirs (snd (cleanupSession env_gone w_qr id_up False))"
    using up by (simp add: u3)
  have "disk (store (snd (cleanupSession env_gone w_qr id_up False))) =
      (if starts_with (authDir env_gone id_up) (INSTANCES_FILE env_gone) then Absent
       else disk (store w_qr))"
    using C ru by blast
  then have c13: "disk (store (snd (cleanupSession env_gone w_qr id_up False))) = Absent"
    using up by simp
  have c14: "fst (cleanupSession env_gone w_qr id_nul False) = Some InvalidArgValue"
    using D rn by simp
  have "sessions (snd (cleanupSession env_gone w_qr id_nul False)) =
      (sessions w_qr)(id_nul := None)"
    using D by blast
  then have c15: "sessions (snd (cleanupSession env_gone w_qr id_nul False)) id_nul = None"
    by simp
  have c16: "fst (cleanupSession env_denied w_qr (lit ''a'') False) =
     Some (External (lit ''EACCES: permission denied''))"
    using E rd by simp
  have "sessions (snd (cleanupSession env_denied w_qr (lit ''a'') False)) =
      (sessions w_qr)(lit ''a'' := None)"
    using E by blast
  then have c17: "sessions (snd (cleanupSession env_denied w_qr (lit ''a'') False)) (lit ''a'') = None"
    by simp
  from c1 c2 c3 c4 c5 c6 c7 c8 c9 c10 c11 c12 c13 c14 c15 c16 c17 show ?thesis by blast
qed

subsection \<open>handleConnectionUpdate\<close>

lemma updateStatus_call_allowed:
  assumes "s \<in> ALLOWED_STATUSES"
  shows "updateStatus_call k s w = (None, w\<lparr>store := snd (store_updateStatus (store w) k s)\<rparr>)"
  using assms
  by (simp add: updateStatus_call_def store_updateStatus_def Let_def split: option.splits)

lemma store_get_updateStatus:
  assumes "s \<in> ALLOWED_STATUSES"
  shows "store_get (snd (store_updateStatus st k s)) k =
     map_option (\<lambda>r. r\<lparr>status := s\<rparr>) (store_get st k)"
  using assms
  by (simp add: store_updateStatus_def store_get_def Map_get_def map_of_Map_set
      store_save_def Let_def split: option.splits)

lemma qr_block_fst: "qr_encodes env update \<Longrightarrow> fst (qr_block env k update now w) = None"
  by (auto simp: qr_block_def qr_encodes_def Let_def updateStatus_call_allowed pending_allowed
      split: sum.splits)

lemma qr_block_session:
  assumes "sessions w k = Some session"
  shows "\<exists>s1. sessions (snd (qr_block env k update now w)) k = Some s1"
  using assms
  by (simp add: qr_block_def Let_def updateStatus_call_allowed pending_allowed update_session_def
      split: sum.splits)

lemma qr_block_auth_dirs: "auth_dirs (snd (qr_block env k update now w)) = auth_dirs w"
  by (simp add: qr_block_def Let_def updateStatus_call_allowed pending_allowed update_session_def
      split: option.splits sum.splits)

lemma qr_block_trace: "trace (snd (qr_block env k update now w)) = trace w"
  by (simp add: qr_block_def Let_def updateStatus_call_allowed pending_allowed update_session_def
      split: option.splits sum.splits)

lemma qr_block_store:
  "store_get (store (snd (qr_block env k update now w))) k = store_get (store w) k \<or>
   store_get (store (snd (qr_block env k update now w))) k =
     map_option (\<lambda>r. r\<lparr>status := JStr (lit ''pending_qr'')\<rparr>) (store_get (store w) k)"
  by (simp add: qr_block_def Let_def updateStatus_call_allowed pending_allowed
      store_get_updateStatus split: sum.splits)

lemma status_overwrite:
  assumes "x = y \<or> x = map_option (\<lambda>r. r\<lparr>status := a\<rparr>) y"
  shows "map_option (\<lambda>r. r\<lparr>status := b\<rparr>) x = map_option (\<lambda>r::instance_rec. r\<lparr>status := b\<rparr>) y"
  using assms by (cases y) auto

lemma connection_block_open:
  assumes "sessions w k = Some s1" "field update (lit ''connection'') = JStr (lit ''open'')"
  shows "connection_block env k update w =
     (None, w\<lparr>sessions := (sessions w)(k \<mapsto> s1\<lparr>connection := JStr (lit ''open''), qr := None\<rparr>),
              store := snd (store_updateStatus (store w) k (JStr (lit ''ready'')))\<rparr>)"
  using assms
  by (simp add: connection_block_def Let_def updateStatus_call_allowed ready_allowed
      update_session_def)

lemma connection_block_close_other:
  assumes "sessions w k = Some s1" "field update (lit ''connection'') = JStr (lit ''close'')"
    and "lastDisconnect_statusCode update \<noteq> JNum (loggedOut env)"
  shows "connection_block env k update w =
     (None, w\<lparr>sessions := (sessions w)(k \<mapsto> s1\<lparr>connection := JStr (lit ''close'')\<rparr>),
              store := snd (store_updateStatus (store w) k (JStr (lit ''disconnected'')))\<rparr>)"
  using assms
  by (simp add: connection_block_def Let_def updateStatus_call_allowed disconnected_allowed
      update_session_def)

lemma connection_block_close_loggedOut:
  assumes "sessions w k = Some s1" "field update (lit ''connection'') = JStr (lit ''close'')"
    and "lastDisconnect_statusCode update = JNum (loggedOut env)"
  shows "connection_block env k update w =
     cleanupSession env
       (w\<lparr>sessions := (sessions w)(k \<mapsto> s1\<lparr>connection := JStr (lit ''close'')\<rparr>),
          store := snd (store_updateStatus (store w) k (JStr (lit ''disconnected'')))\<rparr>) k False"
  using assms
  by (simp add: connection_block_def Let_def updateStatus_call_allowed disconnected_allowed
      update_session_def and_then_def)

lemma handle_two_blocks:
  assumes "sessions w k = Some session" "\<not> nullish update" "qr_encodes env update"
  shows "handleConnectionUpdate env w k update now =
     connection_block env k update (snd (qr_block env k update now w))"
proof -
  obtain w1 where q: "qr_block env k update now w = (None, w1)"
    using qr_block_fst [OF assms(3), of k now w] by (cases "qr_block env k update now w") auto
  show ?thesis using assms by (simp add: handleConnectionUpdate_def and_then_def q)
qed

lemma cleanupSession_store_get [simp]:
  "store_get (store (snd (cleanupSession env w k keepData))) k' = store_get (store w) k'"
  by (simp add: store_get_def)

text \<open>
  C3, as the code has it. For an instance with a registered session and a connection
  update whose QR text, if it carries one, the encoder accepts: a phase \<^verbatim>\<open>open\<close> leaves
  the session without QR payload and the instance, if the catalog has it, with status
  \<^verbatim>\<open>ready\<close>, and touches neither the credential directories nor the client; a phase
  \<^verbatim>\<open>close\<close> leaves the instance with status \<^verbatim>\<open>disconnected\<close>, and then, when the
  status code of the disconnect is the logged-out code, \<^verbatim>\<open>cleanupSession\<close> runs with
  \<^verbatim>\<open>keepData\<close> false (the logout and the closing of the transport are called, the
  session entry is removed, and \<^verbatim>\<open>fsp.rm\<close> is called on the credential directory of
  the instance, removing everything at or under it unless the call fails, whose error is
  then the handler's), while for every other cause the session entry stays with phase
  \<^verbatim>\<open>close\<close>, the credential directories are untouched and no call is made on the
  client or to \<^verbatim>\<open>fsp.rm\<close>.
\<close>

theorem handleConnectionUpdate_phase:
  assumes "sessions w k = Some session" and "qr_encodes env update"
  shows
   "(field update (lit ''connection'') = JStr (lit ''open'') \<longrightarrow>
       fst (handleConnectionUpdate env w k update now) = None \<and>
       map_option qr (sessions (after_update env w k update now) k) = Some None \<and>
       map_option connection (sessions (after_update env w k update now) k) =
         Some (JStr (lit ''open'')) \<and>
       store_get (store (after_update env w k update now)) k =
         map_option (\<lambda>r. r\<lparr>status := JStr (lit ''ready'')\<rparr>) (store_get (store w) k) \<and>
       auth_dirs (after_update env w k update now) = auth_dirs w \<and>
       trace (after_update env w k update now) = trace w) \<and>
    (field update (lit ''connection'') = JStr (lit ''close'') \<longrightarrow>
       store_get (store (after_update env w k update now)) k =
         map_option (\<lambda>r. r\<lparr>status := JStr (lit ''disconnected'')\<rparr>) (store_get (store w) k) \<and>
       (lastDisconnect_statusCode update = JNum (loggedOut env) \<longrightarrow>
          sessions (after_update env w k update now) k = None \<and>
          trace (after_update env w k update now) =
            trace w @ cleanup_calls env k @ [Rm (authDir env k)] \<and>
          fst (handleConnectionUpdate env w k update now) = rm_error env (authDir env k) \<and>
          (rm_error env (authDir env k) = None \<longrightarrow>
             auth_dirs (after_update env w k update now) =
               {q \<in> auth_dirs w. \<not> starts_with (authDir env k) q}) \<and>
          (dirs_valid w \<longrightarrow> rm_fails env (authDir env k) = None \<longrightarrow>
             (\<forall>q \<in> auth_dirs (after_update env w k update now).
                \<not> starts_with (authDir env k) q))) \<and>
       (lastDisconnect_statusCode update \<noteq> JNum (loggedOut env) \<longrightarrow>
          fst (handleConnectionUpdate env w k update now) = None \<and>
          map_option connection (sessions (after_update env w k update now) k) =
            Some (JStr (lit ''close'')) \<and>
          auth_dirs (after_update env w k update now) = auth_dirs w \<and>
          trace (after_update env w k update now) = trace w))"
proof -
  define w1 where "w1 = snd (qr_block env k update now w)"
  obtain s1 where s1: "sessions w1 k = Some s1"
    using qr_block_session [OF assms(1)] unfolding w1_def by blast
  have dirs: "auth_dirs w1 = auth_dirs w" and tr: "trace w1 = trace w"
    unfolding w1_def by (rule qr_block_auth_dirs, rule qr_block_trace)
  have st: "store_get (store w1) k = store_get (store w) k \<or>
     store_get (store w1) k =
       map_option (\<lambda>r. r\<lparr>status := JStr (lit ''pending_qr'')\<rparr>) (store_get (store w) k)"
    unfolding w1_def by (rule qr_block_store)
  have two: "handleConnectionUpdate env w k update now = connection_block env k update w1"
    if "\<not> nullish update"
    unfolding w1_def using assms(1) that assms(2) by (rule handle_two_blocks)
  have obj: "\<not> nullish update" if "field update (lit ''connection'') = JStr c" for c
    using that by (cases update) auto
  have "?thesis" if o: "field update (lit ''connection'') = JStr (lit ''open'')"
  proof -
    have "handleConnectionUpdate env w k update now =
        (None, w1\<lparr>sessions := (sessions w1)(k \<mapsto> s1\<lparr>connection := JStr (lit ''open''), qr := None\<rparr>),
              store := snd (store_updateStatus (store w1) k (JStr (lit ''ready'')))\<rparr>)"
      using two [OF obj [OF o]] connection_block_open [OF s1 o] by simp
    then show ?thesis
      using o dirs tr status_overwrite [OF st]
      by (simp add: after_update_def store_get_updateStatus ready_allowed)
  qed
  moreover have "?thesis" if c: "field update (lit ''connection'') = JStr (lit ''close'')"
  proof (cases "lastDisconnect_statusCode update = JNum (loggedOut env)")
    case True
    define w2 where "w2 = w1\<lparr>sessions := (sessions w1)(k \<mapsto> s1\<lparr>connection := JStr (lit ''close'')\<rparr>),
              store := snd (store_updateStatus (store w1) k (JStr (lit ''disconnected'')))\<rparr>"
    have h: "handleConnectionUpdate env w k update now = cleanupSession env w2 k False"
      unfolding w2_def
      using two [OF obj [OF c]] connection_block_close_loggedOut [OF s1 c True] by simp
    have w2s: "sessions w2 k = Some (s1\<lparr>connection := JStr (lit ''close'')\<rparr>)"
      and w2d: "auth_dirs w2 = auth_dirs w" and w2t: "trace w2 = trace w"
      and w2g: "store_get (store w2) k =
          map_option (\<lambda>r. r\<lparr>status := JStr (lit ''disconnected'')\<rparr>) (store_get (store w) k)"
      using dirs tr status_overwrite [OF st]
      by (simp_all add: w2_def store_get_updateStatus disconnected_allowed)
    have v: "dirs_valid w2 = dirs_valid w" by (simp add: dirs_valid_def w2d)
    have gone: "dirs_valid w \<longrightarrow> rm_fails env (authDir env k) = None \<longrightarrow>
        (\<forall>q \<in> auth_dirs (snd (cleanupSession env w2 k False)). \<not> starts_with (authDir env k) q)"
      using cleanupSession_gone [of False w2 _ env k] v by blast
    show ?thesis
      using c True gone
      by (simp add: after_update_def h cleanupSession_fst cleanupSession_sessions
          cleanupSession_auth_dirs cleanupSession_trace w2s w2d w2t w2g)
  next
    case False
    have "handleConnectionUpdate env w k update now =
        (None, w1\<lparr>sessions := (sessions w1)(k \<mapsto> s1\<lparr>connection := JStr (lit ''close'')\<rparr>),
              store := snd (store_updateStatus (store w1) k (JStr (lit ''disconnected'')))\<rparr>)"
      using two [OF obj [OF c]] connection_block_close_other [OF s1 c False] by simp
    then show ?thesis
      using c False dirs tr status_overwrite [OF st]
      by (simp add: after_update_def store_get_updateStatus disconnected_allowed)
  qed
  ultimately show ?thesis by auto
qed

theorem handleConnectionUpdate_phase_witness:
  "map_option qr (sessions w_qr (lit ''a'')) = Some (Some qr_abc) \<and>
   map_option qr (sessions (after_update env_ok w_qr (lit ''a'') update_open 5000) (lit ''a'')) =
     Some None \<and>
   store_get (store (after_update env_ok w_qr (lit ''a'') update_open 5000)) (lit ''a'') =
     Some (rec_a\<lparr>status := JStr (lit ''ready'')\<rparr>) \<and>
   map_option qr (sessions (after_update env_ok w_qr (lit ''a'') update_qr_open 5000) (lit ''a'')) =
     Some None \<and>
   store_get (store (after_update env_ok w_qr (lit ''a'') update_qr_open 5000)) (lit ''a'') =
     Some (rec_a\<lparr>status := JStr (lit ''ready'')\<rparr>) \<and>
   store_get (store (after_update env_ok w_qr (lit ''a'') update_logged_out 5000)) (lit ''a'') =
     Some (rec_a\<lparr>status := JStr (lit ''disconnected'')\<rparr>) \<and>
   sessions (after_update env_ok w_qr (lit ''a'') update_logged_out 5000) (lit ''a'') = None \<and>
   dir_of (lit ''a'') \<notin> auth_dirs (after_update env_ok w_qr (lit ''a'') update_logged_out 5000) \<and>
   trace (after_update env_ok w_qr (lit ''a'') update_logged_out 5000) =
     [Logout (lit ''a''), WsClose (lit ''a''), Rm (dir_of (lit ''a''))] \<and>
   store_get (store (after_update env_ok w_qr (lit ''a'') update_lost 5000)) (lit ''a'') =
     Some (rec_a\<lparr>status := JStr (lit ''disconnected'')\<rparr>) \<and>
   map_option connection (sessions (after_update env_ok w_qr (lit ''a'') update_lost 5000) (lit ''a'')) =
     Some (JStr (lit ''close'')) \<and>
   dir_of (lit ''a'') \<in> auth_dirs (after_update env_ok w_qr (lit ''a'') update_lost 5000) \<and>
   trace (after_update env_ok w_qr (lit ''a'') update_lost 5000) = []"
proof -
  have s: "sessions w_qr (lit ''a'') = Some \<lparr>qr = Some qr_abc, connection = JStr (lit ''close'')\<rparr>"
    by (simp add: w_qr_def)
  have g: "store_get (store w_qr) (lit ''a'') = Some rec_a"
    by (simp add: w_qr_def st_a_def store_get_def Map_get_def)
  have d: "auth_dirs w_qr = {dir_of (lit ''a''), dir_of (lit ''b'')}" by (simp add: w_qr_def)
  have t: "trace w_qr = []" by (simp add: w_qr_def)
  have e1: "qr_encodes env_ok update_open"
    by (simp add: qr_encodes_def update_open_def)
  have e2: "qr_encodes env_ok update_qr_open"
    by (simp add: qr_encodes_def update_qr_open_def env_ok_def)
  have e3: "qr_encodes env_ok update_logged_out"
    by (simp add: qr_encodes_def update_logged_out_def)
  have e4: "qr_encodes env_ok update_lost"
    by (simp add: qr_encodes_def update_lost_def)
  have o: "field update_open (lit ''connection'') = JStr (lit ''open'')"
    by (simp add: update_open_def)
  have o2: "field update_qr_open (lit ''connection'') = JStr (lit ''open'')"
    by (simp add: update_qr_open_def)
  have c1: "field update_logged_out (lit ''connection'') = JStr (lit ''close'')"
    and l1: "lastDisconnect_statusCode update_logged_out = JNum (loggedOut env_ok)"
    by (simp_all add: update_logged_out_def lastDisconnect_statusCode_def opt_field_def env_ok_def)
  have c2: "field update_lost (lit ''connection'') = JStr (lit ''close'')"
    and l2: "lastDisconnect_statusCode update_lost \<noteq> JNum (loggedOut env_ok)"
    by (simp_all add: update_lost_def lastDisconnect_statusCode_def opt_field_def env_ok_def)
  have va: "rm_error env_ok (authDir env_ok (lit ''a'')) = None"
    using valid_authDir_a by (simp add: rm_error_ok)
  have calls: "cleanup_calls env_ok (lit ''a'') = [Logout (lit ''a''), WsClose (lit ''a'')]"
    by (simp add: cleanup_calls_def env_ok_def)
  have sw: "starts_with (dir_of (lit ''a'')) (dir_of (lit ''a''))"
    by (simp add: starts_with_def)
  note A = handleConnectionUpdate_phase [OF s e1, of 5000]
  note A2 = handleConnectionUpdate_phase [OF s e2, of 5000]
  note B = handleConnectionUpdate_phase [OF s e3, of 5000]
  note C = handleConnectionUpdate_phase [OF s e4, of 5000]
  have "map_option qr (sessions w_qr (lit ''a'')) = Some (Some qr_abc)"
    by (simp add: s)
  moreover have "map_option qr (sessions (after_update env_ok w_qr (lit ''a'') update_open 5000) (lit ''a'')) =
     Some None"
    using A o by blast
  moreover have "store_get (store (after_update env_ok w_qr (lit ''a'') update_open 5000)) (lit ''a'') =
     Some (rec_a\<lparr>status := JStr (lit ''ready'')\<rparr>)"
    using A o g by simp
  moreover have "map_option qr (sessions (after_update env_ok w_qr (lit ''a'') update_qr_open 5000) (lit ''a'')) =
     Some None"
    using A2 o2 by blast
  moreover have "store_get (store (after_update env_ok w_qr (lit ''a'') update_qr_open 5000)) (lit ''a'') =
     Some (rec_a\<lparr>status := JStr (lit ''ready'')\<rparr>)"
    using A2 o2 g by simp
  moreover have "store_get (store (after_update env_ok w_qr (lit ''a'') update_logged_out 5000)) (lit ''a'') =
     Some (rec_a\<lparr>status := JStr (lit ''disconnected'')\<rparr>)"
    using B c1 g by simp
  moreover have "sessions (after_update env_ok w_qr (lit ''a'') update_logged_out 5000) (lit ''a'') = None"
    using B c1 l1 by blast
  moreover have "dir_of (lit ''a'') \<notin> auth_dirs (after_update env_ok w_qr (lit ''a'') update_logged_out 5000)"
  proof -
    have "auth_dirs (after_update env_ok w_qr (lit ''a'') update_logged_out 5000) =
        {q \<in> auth_dirs w_qr. \<not> starts_with (authDir env_ok (lit ''a'')) q}"
      using B c1 l1 va by simp
    then show ?thesis using sw by (simp add: authDir_ok_a)
  qed
  moreover have "trace (after_update env_ok w_qr (lit ''a'') update_logged_out 5000) =
     [Logout (lit ''a''), WsClose (lit ''a''), Rm (dir_of (lit ''a''))]"
    using B c1 l1 t calls by (simp add: authDir_ok_a)
  moreover have "store_get (store (after_update env_ok w_qr (lit ''a'') update_lost 5000)) (lit ''a'') =
     Some (rec_a\<lparr>status := JStr (lit ''disconnected'')\<rparr>)"
    using C c2 g by simp
  moreover have "map_option connection (sessions (after_update env_ok w_qr (lit ''a'') update_lost 5000) (lit ''a'')) =
     Some (JStr (lit ''close''))"
    using C c2 l2 by blast
  moreover have "dir_of (lit ''a'') \<in> auth_dirs (after_update env_ok w_qr (lit ''a'') update_lost 5000)"
    using C c2 l2 d by simp
  moreover have "trace (after_update env_ok w_qr (lit ''a'') update_lost 5000) = []"
    using C c2 l2 t by simp
  ultimately show ?thesis by blast
qed

text \<open>
  C3 as stated does not hold for every connection update: \<^verbatim>\<open>QRCode.toDataURL\<close> is
  awaited before the phase is looked at and outside any \<^verbatim>\<open>try\<close>, so for an update
  that carries a QR value the encoder rejects together with the phase \<^verbatim>\<open>open\<close>, the
  handler ends with the encoder's error: the session keeps its QR payload and the
  instance its status \<^verbatim>\<open>pending_qr\<close>.
\<close>

theorem qr_rejection_skips_open:
  "field update_qr_open (lit ''connection'') = JStr (lit ''open'') \<and>
   sessions w_qr (lit ''a'') = Some \<lparr>qr = Some qr_abc, connection = JStr (lit ''close'')\<rparr> \<and>
   store_get (store w_qr) (lit ''a'') = Some rec_a \<and>
   status rec_a = JStr (lit ''pending_qr'') \<and>
   handleConnectionUpdate env_qr_fail w_qr (lit ''a'') update_qr_open 5000 =
     (Some (External (lit ''Invalid data'')), w_qr)"
  by (simp add: update_qr_open_def w_qr_def st_a_def rec_a_def store_get_def Map_get_def
      handleConnectionUpdate_def qr_block_def and_then_def env_qr_fail_def)

subsection \<open>POST /messages\<close>

lemma getOrCreateSession_existing:
  "sessions w k = Some session \<Longrightarrow> getOrCreateSession env w k = (Inr session, w)"
  by (simp add: getOrCreateSession_def)

lemma post_messages_valid:
  assumes "field body (lit ''instanceId'') = JStr k" "k \<noteq> []"
    and "field body (lit ''to'') = JStr to" "to \<noteq> []"
    and "field body (lit ''type'') = JStr t" "t \<noteq> []"
    and "store_get (store w) k = Some inst"
  shows "post_messages env w body ts = post_messages_send env w k to body ts"
proof -
  obtain fs where "body = JObj fs" using assms(1) field_JStr_obj by blast
  then have "js_or body (JObj []) = body" by (simp add: js_or_def)
  then show ?thesis using assms by (simp add: post_messages_def Let_def)
qed

text \<open>
  C4: when the instance has a session whose latest connection phase is not \<^verbatim>\<open>open\<close>,
  the request is answered 409 \<^verbatim>\<open>instance_not_ready\<close> and the world is unchanged, so
  that the client's \<^verbatim>\<open>sendMessage\<close> is not called. When the phase is \<^verbatim>\<open>open\<close> and the
  content is valid, \<^verbatim>\<open>sendMessage\<close> is called once with the normalised destination and
  the content built, and when it returns a message the answer is 202 with the message
  identifier, the status \<^verbatim>\<open>queued\<close> and the timestamp (when it throws, the handler's
  own catch answers 500). The last part relates the whole
  handler to the part after the lookup of the instance: a request whose
  \<^verbatim>\<open>instanceId\<close>, \<^verbatim>\<open>to\<close> and \<^verbatim>\<open>type\<close> are non-empty strings and whose instance
  is in the catalog reaches it.
\<close>

theorem post_messages_ready_gate:
  assumes "sessions w k = Some session"
  shows
   "(connection session \<noteq> JStr (lit ''open'') \<longrightarrow>
       post_messages_send env w k to payload ts =
         (ErrorResponse 409 (lit ''instance_not_ready''), w)) \<and>
    (connection session = JStr (lit ''open'') \<longrightarrow>
       (\<forall>content. buildMessageContent payload = Inr content \<longrightarrow>
          (trace (snd (post_messages_send env w k to payload ts)) =
             trace w @ [SendMessage k (jid_of to) content] \<or>
           trace (snd (post_messages_send env w k to payload ts)) =
             trace w @ [SendMessage k (jid_of to) content, ConsoleError k]) \<and>
          (\<forall>result. sendMessage env k (jid_of to) content = Inr result \<longrightarrow> \<not> nullish result \<longrightarrow>
             post_messages_send env w k to payload ts =
               (JsonResponse 202
                  (JObj [(lit ''messageId'', message_id result),
                         (lit ''status'', JStr (lit ''queued'')),
                         (lit ''timestamp'', JStr ts)]),
                emit (SendMessage k (jid_of to) content) w)) \<and>
          (\<forall>m. sendMessage env k (jid_of to) content = Inl m \<longrightarrow>
             fst (post_messages_send env w k to payload ts) =
               ErrorResponse 500 (lit ''internal_error'')))) \<and>
    (\<forall>t inst. field payload (lit ''instanceId'') = JStr k \<longrightarrow> k \<noteq> [] \<longrightarrow>
       field payload (lit ''to'') = JStr to \<longrightarrow> to \<noteq> [] \<longrightarrow>
       field payload (lit ''type'') = JStr t \<longrightarrow> t \<noteq> [] \<longrightarrow>
       store_get (store w) k = Some inst \<longrightarrow>
       post_messages env w payload ts = post_messages_send env w k to payload ts)"
proof -
  note g = getOrCreateSession_existing [OF assms, of env]
  have a: "connection session \<noteq> JStr (lit ''open'') \<longrightarrow>
       post_messages_send env w k to payload ts =
         (ErrorResponse 409 (lit ''instance_not_ready''), w)"
    by (simp add: post_messages_send_def g)
  have b: "trace (snd (post_messages_send env w k to payload ts)) =
             trace w @ [SendMessage k (jid_of to) content] \<or>
           trace (snd (post_messages_send env w k to payload ts)) =
             trace w @ [SendMessage k (jid_of to) content, ConsoleError k]"
    if "connection session = JStr (lit ''open'')" "buildMessageContent payload = Inr content"
    for content
    using that by (simp add: post_messages_send_def g Let_def emit_def split: sum.splits)
  have c: "post_messages_send env w k to payload ts =
               (JsonResponse 202
                  (JObj [(lit ''messageId'', message_id result),
                         (lit ''status'', JStr (lit ''queued'')),
                         (lit ''timestamp'', JStr ts)]),
                emit (SendMessage k (jid_of to) content) w)"
    if "connection session = JStr (lit ''open'')" "buildMessageContent payload = Inr content"
      "sendMessage env k (jid_of to) content = Inr result" "\<not> nullish result"
    for content result
    using that by (simp add: post_messages_send_def g Let_def)
  have c': "fst (post_messages_send env w k to payload ts) =
               ErrorResponse 500 (lit ''internal_error'')"
    if "connection session = JStr (lit ''open'')" "buildMessageContent payload = Inr content"
      "sendMessage env k (jid_of to) content = Inl m"
    for content m
    using that by (simp add: post_messages_send_def g Let_def)
  have d: "post_messages env w payload ts = post_messages_send env w k to payload ts"
    if "field payload (lit ''instanceId'') = JStr k" "k \<noteq> []"
       "field payload (lit ''to'') = JStr to" "to \<noteq> []"
       "field payload (lit ''type'') = JStr t" "t \<noteq> []"
       "store_get (store w) k = Some inst" for t inst
    using that by (rule post_messages_valid)
  from a b c c' d show ?thesis by blast
qed

theorem post_messages_ready_gate_witness:
  "post_messages env_ok w_qr body_hello (lit ''2026-01-01T00:00:00.000Z'') =
     (ErrorResponse 409 (lit ''instance_not_ready''), w_qr) \<and>
   post_messages env_ok w_open body_hello (lit ''2026-01-01T00:00:00.000Z'') =
     (JsonResponse 202
        (JObj [(lit ''messageId'', JStr (lit ''M1'')),
               (lit ''status'', JStr (lit ''queued'')),
               (lit ''timestamp'', JStr (lit ''2026-01-01T00:00:00.000Z''))]),
      w_open\<lparr>trace := [SendMessage (lit ''a'') (lit ''5511@s.whatsapp.net'')
                          (JObj [(lit ''text'', JStr (lit ''hello''))])]\<rparr>)"
proof -
  have s1: "sessions w_qr (lit ''a'') = Some \<lparr>qr = Some qr_abc, connection = JStr (lit ''close'')\<rparr>"
    by (simp add: w_qr_def)
  have s2: "sessions w_open (lit ''a'') = Some \<lparr>qr = None, connection = JStr (lit ''open'')\<rparr>"
    by (simp add: w_open_def)
  have g1: "store_get (store w_qr) (lit ''a'') = Some rec_a"
    by (simp add: w_qr_def st_a_def store_get_def Map_get_def)
  have g2: "store_get (store w_open) (lit ''a'') = Some rec_a"
    by (simp add: w_open_def st_a_def store_get_def Map_get_def)
  have f: "field body_hello (lit ''instanceId'') = JStr (lit ''a'')"
      "field body_hello (lit ''to'') = JStr (lit ''5511'')"
      "field body_hello (lit ''type'') = JStr (lit ''text'')"
    by (simp_all add: body_hello_def)
  have j: "jid_of (lit ''5511'') = lit ''5511@s.whatsapp.net''"
    by (simp add: jid_of_def lit_def starts_with_def)
  have c: "buildMessageContent body_hello = Inr (JObj [(lit ''text'', JStr (lit ''hello''))])"
    by (simp add: buildMessageContent_def body_hello_def trim_def is_ws_def lit_def)
  have r: "sendMessage env_ok (lit ''a'') (lit ''5511@s.whatsapp.net'')
             (JObj [(lit ''text'', JStr (lit ''hello''))]) =
           Inr (JObj [(lit ''key'', JObj [(lit ''id'', JStr (lit ''M1''))])])"
    by (simp add: env_ok_def)
  have m: "message_id (JObj [(lit ''key'', JObj [(lit ''id'', JStr (lit ''M1''))])]) = JStr (lit ''M1'')"
    by (simp add: message_id_def opt_field_def js_or_def)
  have e: "emit (SendMessage (lit ''a'') (lit ''5511@s.whatsapp.net'')
              (JObj [(lit ''text'', JStr (lit ''hello''))])) w_open =
           w_open\<lparr>trace := [SendMessage (lit ''a'') (lit ''5511@s.whatsapp.net'')
                          (JObj [(lit ''text'', JStr (lit ''hello''))])]\<rparr>"
    by (simp add: emit_def w_open_def)
  note A = post_messages_ready_gate [OF s1, where env = env_ok and to = "lit ''5511''"
      and payload = body_hello and ts = "lit ''2026-01-01T00:00:00.000Z''"]
  note B = post_messages_ready_gate [OF s2, where env = env_ok and to = "lit ''5511''"
      and payload = body_hello and ts = "lit ''2026-01-01T00:00:00.000Z''"]
  have "post_messages env_ok w_qr body_hello (lit ''2026-01-01T00:00:00.000Z'') =
     (ErrorResponse 409 (lit ''instance_not_ready''), w_qr)"
    using A f g1 by simp
  moreover have "post_messages env_ok w_open body_hello (lit ''2026-01-01T00:00:00.000Z'') =
     (JsonResponse 202
        (JObj [(lit ''messageId'', JStr (lit ''M1'')),
               (lit ''status'', JStr (lit ''queued'')),
               (lit ''timestamp'', JStr (lit ''2026-01-01T00:00:00.000Z''))]),
      w_open\<lparr>trace := [SendMessage (lit ''a'') (lit ''5511@s.whatsapp.net'')
                          (JObj [(lit ''text'', JStr (lit ''hello''))])]\<rparr>)"
    using B f g2 c r m e j by simp
  ultimately show ?thesis by blast
qed

end
